theory Spec2Isabelle
  imports Main "HOL-Library.AList" "HOL-Library.Char_ord" "HOL-Library.List_Lexorder"
begin

section \<open>Runtime values\<close>

text \<open>
  \<^verbatim>\<open>Role\<close> and \<^verbatim>\<open>Permission\<close> are TypeScript string enums: at run time a role and a
  permission are strings, and the code itself allows for a role string outside the enum
  (\<^verbatim>\<open>isRole\<close>, \<^verbatim>\<open>?.\<close>, \<^verbatim>\<open>??\<close>). Both are therefore strings here, the enum members
  being named constants.
\<close>

type_synonym role = string
type_synonym permission = string

datatype error = TypeError | PrismaClientValidationError

subsection \<open>Property access on an object literal\<close>

text \<open>
  An object literal is the list of its own properties, in insertion order. Reading
  \<^verbatim>\<open>obj[k]\<close> gives the own property when there is one; otherwise the lookup goes to
  \<^verbatim>\<open>Object.prototype\<close>, whose members (ECMAScript, with Annex B) are listed below;
  otherwise the result is \<^verbatim>\<open>undefined\<close>.
\<close>

type_synonym 'a js_object = "(string \<times> 'a) list"

datatype 'a js_val = Val 'a | Builtin string | Undefined

definition Object_prototype_keys :: "string list" where
  "Object_prototype_keys =
    [''constructor'', ''__proto__'', ''hasOwnProperty'', ''isPrototypeOf'',
     ''propertyIsEnumerable'', ''toLocaleString'', ''toString'', ''valueOf'',
     ''__defineGetter__'', ''__defineSetter__'', ''__lookupGetter__'', ''__lookupSetter__'']"

definition js_get :: "'a js_object \<Rightarrow> string \<Rightarrow> 'a js_val" where
  "js_get obj k =
    (case map_of obj k of
       Some v \<Rightarrow> Val v
     | None \<Rightarrow> if k \<in> set Object_prototype_keys then Builtin k else Undefined)"

definition Object_values :: "'a js_object \<Rightarrow> 'a list" where
  "Object_values obj = map snd obj"

text \<open>\<^verbatim>\<open>Object.fromEntries\<close>: a later entry overwrites an earlier one with the same key.\<close>

definition Object_fromEntries :: "(string \<times> 'a) list \<Rightarrow> 'a js_object" where
  "Object_fromEntries es = foldl (\<lambda>obj (k, v). AList.update k v obj) [] es"

text \<open>
  \<^verbatim>\<open>xs.some(f)\<close> and \<^verbatim>\<open>xs.every(f)\<close> with a callback that may throw: the callback runs
  on the elements in order, the first decisive answer ends the loop, and an exception of
  the callback leaves the loop at once.
\<close>

fun some_js :: "('a \<Rightarrow> error + bool) \<Rightarrow> 'a list \<Rightarrow> error + bool" where
  "some_js f [] = Inr False"
| "some_js f (x # xs) =
    (case f x of Inl e \<Rightarrow> Inl e | Inr b \<Rightarrow> if b then Inr True else some_js f xs)"

fun every_js :: "('a \<Rightarrow> error + bool) \<Rightarrow> 'a list \<Rightarrow> error + bool" where
  "every_js f [] = Inr True"
| "every_js f (x # xs) =
    (case f x of Inl e \<Rightarrow> Inl e | Inr b \<Rightarrow> if b then every_js f xs else Inr False)"

text \<open>\<^verbatim>\<open>xs.join(sep)\<close> on an array of strings.\<close>

fun join :: "string \<Rightarrow> string list \<Rightarrow> string" where
  "join sep [] = []"
| "join sep [x] = x"
| "join sep (x # y # ys) = x @ sep @ join sep (y # ys)"

section \<open>types.ts: roles, permissions, the table\<close>

definition OWNER :: role where "OWNER = ''OWNER''"
definition TRAINER :: role where "TRAINER = ''TRAINER''"
definition USER :: role where "USER = ''USER''"

definition Role :: "role js_object" where
  "Role = [(''OWNER'', OWNER), (''TRAINER'', TRAINER), (''USER'', USER)]"

definition MANAGE_ORGANIZATION :: permission where "MANAGE_ORGANIZATION = ''MANAGE_ORGANIZATION''"
definition VIEW_ORGANIZATION :: permission where "VIEW_ORGANIZATION = ''VIEW_ORGANIZATION''"
definition DELETE_ORGANIZATION :: permission where "DELETE_ORGANIZATION = ''DELETE_ORGANIZATION''"
definition MANAGE_MEMBERS :: permission where "MANAGE_MEMBERS = ''MANAGE_MEMBERS''"
definition INVITE_MEMBERS :: permission where "INVITE_MEMBERS = ''INVITE_MEMBERS''"
definition REMOVE_MEMBERS :: permission where "REMOVE_MEMBERS = ''REMOVE_MEMBERS''"
definition VIEW_MEMBERS :: permission where "VIEW_MEMBERS = ''VIEW_MEMBERS''"
definition MANAGE_TRAINERS :: permission where "MANAGE_TRAINERS = ''MANAGE_TRAINERS''"
definition ASSIGN_TRAINERS :: permission where "ASSIGN_TRAINERS = ''ASSIGN_TRAINERS''"
definition MANAGE_USERS :: permission where "MANAGE_USERS = ''MANAGE_USERS''"
definition VIEW_USERS :: permission where "VIEW_USERS = ''VIEW_USERS''"
definition CREATE_WORKOUTS :: permission where "CREATE_WORKOUTS = ''CREATE_WORKOUTS''"
definition EDIT_WORKOUTS :: permission where "EDIT_WORKOUTS = ''EDIT_WORKOUTS''"
definition DELETE_WORKOUTS :: permission where "DELETE_WORKOUTS = ''DELETE_WORKOUTS''"
definition VIEW_WORKOUTS :: permission where "VIEW_WORKOUTS = ''VIEW_WORKOUTS''"
definition ASSIGN_WORKOUTS :: permission where "ASSIGN_WORKOUTS = ''ASSIGN_WORKOUTS''"
definition MANAGE_SCHEDULE :: permission where "MANAGE_SCHEDULE = ''MANAGE_SCHEDULE''"
definition VIEW_SCHEDULE :: permission where "VIEW_SCHEDULE = ''VIEW_SCHEDULE''"
definition VIEW_ANALYTICS :: permission where "VIEW_ANALYTICS = ''VIEW_ANALYTICS''"
definition VIEW_REPORTS :: permission where "VIEW_REPORTS = ''VIEW_REPORTS''"
definition MANAGE_BILLING :: permission where "MANAGE_BILLING = ''MANAGE_BILLING''"
definition VIEW_BILLING :: permission where "VIEW_BILLING = ''VIEW_BILLING''"
definition MANAGE_SETTINGS :: permission where "MANAGE_SETTINGS = ''MANAGE_SETTINGS''"
definition VIEW_SETTINGS :: permission where "VIEW_SETTINGS = ''VIEW_SETTINGS''"

definition Permission :: "permission js_object" where
  "Permission =
    [(''MANAGE_ORGANIZATION'', MANAGE_ORGANIZATION),
     (''VIEW_ORGANIZATION'', VIEW_ORGANIZATION),
     (''DELETE_ORGANIZATION'', DELETE_ORGANIZATION),
     (''MANAGE_MEMBERS'', MANAGE_MEMBERS),
     (''INVITE_MEMBERS'', INVITE_MEMBERS),
     (''REMOVE_MEMBERS'', REMOVE_MEMBERS),
     (''VIEW_MEMBERS'', VIEW_MEMBERS),
     (''MANAGE_TRAINERS'', MANAGE_TRAINERS),
     (''ASSIGN_TRAINERS'', ASSIGN_TRAINERS),
     (''MANAGE_USERS'', MANAGE_USERS),
     (''VIEW_USERS'', VIEW_USERS),
     (''CREATE_WORKOUTS'', CREATE_WORKOUTS),
     (''EDIT_WORKOUTS'', EDIT_WORKOUTS),
     (''DELETE_WORKOUTS'', DELETE_WORKOUTS),
     (''VIEW_WORKOUTS'', VIEW_WORKOUTS),
     (''ASSIGN_WORKOUTS'', ASSIGN_WORKOUTS),
     (''MANAGE_SCHEDULE'', MANAGE_SCHEDULE),
     (''VIEW_SCHEDULE'', VIEW_SCHEDULE),
     (''VIEW_ANALYTICS'', VIEW_ANALYTICS),
     (''VIEW_REPORTS'', VIEW_REPORTS),
     (''MANAGE_BILLING'', MANAGE_BILLING),
     (''VIEW_BILLING'', VIEW_BILLING),
     (''MANAGE_SETTINGS'', MANAGE_SETTINGS),
     (''VIEW_SETTINGS'', VIEW_SETTINGS)]"

definition ROLE_PERMISSIONS :: "permission list js_object" where
  "ROLE_PERMISSIONS =
    [(OWNER,
       [MANAGE_ORGANIZATION, VIEW_ORGANIZATION, DELETE_ORGANIZATION,
        MANAGE_MEMBERS, INVITE_MEMBERS, REMOVE_MEMBERS, VIEW_MEMBERS,
        MANAGE_TRAINERS, ASSIGN_TRAINERS,
        MANAGE_USERS, VIEW_USERS,
        CREATE_WORKOUTS, EDIT_WORKOUTS, DELETE_WORKOUTS, VIEW_WORKOUTS, ASSIGN_WORKOUTS,
        MANAGE_SCHEDULE, VIEW_SCHEDULE,
        VIEW_ANALYTICS, VIEW_REPORTS,
        MANAGE_BILLING, VIEW_BILLING,
        MANAGE_SETTINGS, VIEW_SETTINGS]),
     (TRAINER,
       [VIEW_ORGANIZATION, VIEW_MEMBERS, VIEW_USERS,
        CREATE_WORKOUTS, EDIT_WORKOUTS, DELETE_WORKOUTS, VIEW_WORKOUTS, ASSIGN_WORKOUTS,
        MANAGE_SCHEDULE, VIEW_SCHEDULE, VIEW_ANALYTICS, VIEW_SETTINGS]),
     (USER,
       [VIEW_ORGANIZATION, VIEW_WORKOUTS, VIEW_SCHEDULE, VIEW_SETTINGS])]"

definition isRole :: "string \<Rightarrow> bool" where
  "isRole v = (v \<in> set (Object_values Role))"

definition isPermission :: "string \<Rightarrow> bool" where
  "isPermission v = (v \<in> set (Object_values Permission))"

text \<open>
  \<^verbatim>\<open>a >= b\<close> on the results of two lookups in a table of numbers. Two numbers compare
  as numbers. \<^verbatim>\<open>undefined\<close> converts to NaN, and so does the text of a built-in when
  the other side is a number: the comparison is false. Two built-ins are compared as
  strings, by the text \<open>txt k\<close> the engine renders for the member named \<open>k\<close> (the text
  is the engine's own, so it is a parameter); \<^verbatim>\<open>a >= b\<close> on strings is the negation of
  \<^verbatim>\<open>a < b\<close> in the order of the code units.
\<close>

fun js_ge :: "(string \<Rightarrow> string) \<Rightarrow> int js_val \<Rightarrow> int js_val \<Rightarrow> bool" where
  "js_ge txt (Val x) (Val y) = (x \<ge> y)"
| "js_ge txt (Builtin j) (Builtin k) = (\<not> txt j < txt k)"
| "js_ge txt _ _ = False"

definition hierarchy :: "int js_object" where
  "hierarchy = [(OWNER, 3), (TRAINER, 2), (USER, 1)]"

definition hasRoleHierarchy :: "(string \<Rightarrow> string) \<Rightarrow> role \<Rightarrow> role \<Rightarrow> bool" where
  "hasRoleHierarchy txt role1 role2 = js_ge txt (js_get hierarchy role1) (js_get hierarchy role2)"

section \<open>permissions.ts: the evaluator\<close>

text \<open>
  \<^verbatim>\<open>ROLE_PERMISSIONS[role]?.includes(permission) ?? false\<close>: the optional chain stops
  at \<^verbatim>\<open>undefined\<close> only; on a built-in of \<^verbatim>\<open>Object.prototype\<close> the member
  \<^verbatim>\<open>includes\<close> is missing and the call raises a TypeError.
\<close>

definition hasPermission :: "role \<Rightarrow> permission \<Rightarrow> error + bool" where
  "hasPermission role permission =
    (case js_get ROLE_PERMISSIONS role of
       Val ps \<Rightarrow> Inr (permission \<in> set ps)
     | Builtin k \<Rightarrow> Inl TypeError
     | Undefined \<Rightarrow> Inr False)"

definition hasAnyPermission :: "role \<Rightarrow> permission list \<Rightarrow> error + bool" where
  "hasAnyPermission role permissions = some_js (\<lambda>permission. hasPermission role permission) permissions"

definition hasAllPermissions :: "role \<Rightarrow> permission list \<Rightarrow> error + bool" where
  "hasAllPermissions role permissions = every_js (\<lambda>permission. hasPermission role permission) permissions"

text \<open>\<^verbatim>\<open>ROLE_PERMISSIONS[role] ?? []\<close>: only \<^verbatim>\<open>undefined\<close> is replaced by the empty array.\<close>

definition getRolePermissions :: "role \<Rightarrow> permission list js_val" where
  "getRolePermissions role =
    (case js_get ROLE_PERMISSIONS role of Undefined \<Rightarrow> Val [] | v \<Rightarrow> v)"

definition canManageRole :: "role \<Rightarrow> role \<Rightarrow> bool" where
  "canManageRole managerRole targetRole =
    (if managerRole = OWNER then True
     else if managerRole = TRAINER \<and> targetRole = USER then True
     else False)"

definition canPerformAction :: "(string \<Rightarrow> string) \<Rightarrow> role \<Rightarrow> role \<Rightarrow> string \<Rightarrow> bool" where
  "canPerformAction txt actorRole targetRole action =
    (if \<not> hasRoleHierarchy txt actorRole targetRole then False
     else if actorRole = OWNER then True
     else if actorRole = TRAINER \<and> targetRole = USER then action = ''view'' \<or> action = ''edit''
     else False)"

section \<open>context.ts: the membership lookup\<close>

text \<open>
  The \<^verbatim>\<open>member\<close> collection is the list of its rows; \<^verbatim>\<open>findFirst\<close> with a
  \<^verbatim>\<open>where\<close> on both fields returns the first row that matches, or null.
\<close>

record member_row =
  row_userId :: string
  row_organizationId :: string
  row_role :: string

record OrganizationMember =
  m_userId :: string
  m_organizationId :: string
  m_role :: role

definition findFirst :: "member_row list \<Rightarrow> string \<Rightarrow> string \<Rightarrow> member_row option" where
  "findFirst db userId organizationId =
    find (\<lambda>m. row_userId m = userId \<and> row_organizationId m = organizationId) db"

definition getOrganizationMember ::
  "member_row list \<Rightarrow> string \<Rightarrow> string \<Rightarrow> OrganizationMember option" where
  "getOrganizationMember db userId organizationId =
    (case findFirst db userId organizationId of
       None \<Rightarrow> None
     | Some member \<Rightarrow>
         if \<not> isRole (row_role member) then None
         else Some \<lparr>m_userId = row_userId member,
                    m_organizationId = row_organizationId member,
                    m_role = row_role member\<rparr>)"

section \<open>middleware.ts: the guards\<close>

text \<open>
  A request, as the guards read it: the session that \<^verbatim>\<open>auth.api.getSession\<close> returns for
  its headers (null when there is none), its query parameters and its path parameters.
  The Hono context holds the variables the guards set; each is undefined until set.
  Several objects of the code share field names (\<^verbatim>\<open>role\<close>, \<^verbatim>\<open>user\<close>, \<^verbatim>\<open>organizationId\<close>);
  the fields of a record carry a prefix that tells the records apart.
\<close>

record auth_user =
  user_id :: string
  user_name :: "string option"
  user_email :: string

record auth_session =
  activeOrganizationId :: "string option"

record session_data =
  sd_user :: auth_user
  sd_session :: auth_session

record request =
  getSession :: "session_data option"
  query :: "string \<Rightarrow> string option"
  param :: "string \<Rightarrow> string option"

record ctx =
  c_user :: "auth_user option"
  c_session :: "auth_session option"
  c_organizationId :: "string option"
  c_role :: "role option"
  c_member :: "OrganizationMember option"

definition empty_ctx :: ctx where
  "empty_ctx = \<lparr>c_user = None, c_session = None, c_organizationId = None,
                 c_role = None, c_member = None\<rparr>"

record response =
  status :: nat
  message :: string

text \<open>
  What a middleware does with a context: it answers itself (\<^verbatim>\<open>return c.json(...)\<close>
  after \<^verbatim>\<open>c.status(n)\<close>, without calling \<^verbatim>\<open>next\<close>), it passes the context on
  (\<^verbatim>\<open>return next()\<close>), or it throws.
\<close>

datatype step = Respond response | Next ctx | Throw error

text \<open>A string that may be null or undefined is truthy when it is a non-empty string.\<close>

definition truthy :: "string option \<Rightarrow> bool" where
  "truthy v = (case v of None \<Rightarrow> False | Some s \<Rightarrow> s \<noteq> [])"

definition js_or :: "string option \<Rightarrow> string option \<Rightarrow> string option" where
  "js_or a b = (if truthy a then a else b)"

text \<open>
  The value of the constant \<^verbatim>\<open>organizationId\<close> of \<^verbatim>\<open>requireOrganizationContext\<close>:
  \<^verbatim>\<open>session.session.activeOrganizationId || c.req.query(..) || c.req.param(..)\<close>.
\<close>

definition resolveOrganizationId :: "session_data \<Rightarrow> request \<Rightarrow> string option" where
  "resolveOrganizationId session req =
    js_or (js_or (activeOrganizationId (sd_session session)) (query req ''organizationId''))
          (param req ''organizationId'')"

definition requireOrganizationContext :: "member_row list \<Rightarrow> request \<Rightarrow> ctx \<Rightarrow> step" where
  "requireOrganizationContext db req c =
    (case getSession req of
       None \<Rightarrow> Respond \<lparr>status = 401, message = ''Unauthorized''\<rparr>
     | Some session \<Rightarrow>
        (case resolveOrganizationId session req of
           None \<Rightarrow> Respond \<lparr>status = 400, message = ''Organization ID is required''\<rparr>
         | Some organizationId \<Rightarrow>
            if organizationId = [] then
              Respond \<lparr>status = 400, message = ''Organization ID is required''\<rparr>
            else
              (case getOrganizationMember db (user_id (sd_user session)) organizationId of
                 None \<Rightarrow>
                   Respond \<lparr>status = 403,
                            message = ''User is not a member of this organization''\<rparr>
               | Some member \<Rightarrow>
                   Next (c\<lparr>c_user := Some (sd_user session),
                           c_session := Some (sd_session session),
                           c_organizationId := Some organizationId,
                           c_role := Some (m_role member),
                           c_member := Some member\<rparr>))))"

definition requireRole :: "role list \<Rightarrow> ctx \<Rightarrow> step" where
  "requireRole allowedRoles c =
    (case c_role c of
       None \<Rightarrow>
         Respond \<lparr>status = 403,
                  message = ''Access denied. Required role: '' @ join '' or '' allowedRoles\<rparr>
     | Some role \<Rightarrow>
         if role = [] \<or> role \<notin> set allowedRoles then
           Respond \<lparr>status = 403,
                    message = ''Access denied. Required role: '' @ join '' or '' allowedRoles\<rparr>
         else Next c)"

definition requirePermission :: "permission list \<Rightarrow> ctx \<Rightarrow> step" where
  "requirePermission requiredPermissions c =
    (case c_role c of
       None \<Rightarrow> Respond \<lparr>status = 403, message = ''Role not found in context''\<rparr>
     | Some role \<Rightarrow>
        if role = [] then Respond \<lparr>status = 403, message = ''Role not found in context''\<rparr>
        else
          (case hasAnyPermission role requiredPermissions of
             Inl e \<Rightarrow> Throw e
           | Inr allowed \<Rightarrow>
               if \<not> allowed then
                 Respond \<lparr>status = 403,
                          message = ''Access denied. Required permission: ''
                                    @ join '' or '' requiredPermissions\<rparr>
               else Next c))"

definition requireAllPermissions :: "permission list \<Rightarrow> ctx \<Rightarrow> step" where
  "requireAllPermissions requiredPermissions c =
    (case c_role c of
       None \<Rightarrow> Respond \<lparr>status = 403, message = ''Role not found in context''\<rparr>
     | Some role \<Rightarrow>
        if role = [] then Respond \<lparr>status = 403, message = ''Role not found in context''\<rparr>
        else
          (case hasAllPermissions role requiredPermissions of
             Inl e \<Rightarrow> Throw e
           | Inr allowed \<Rightarrow>
               if \<not> allowed then
                 Respond \<lparr>status = 403,
                          message = ''Access denied. Required all permissions: ''
                                    @ join '' and '' requiredPermissions\<rparr>
               else Next c))"

definition checkPermission :: "role \<Rightarrow> permission \<Rightarrow> error + bool" where
  "checkPermission role permission = hasPermission role permission"

text \<open>
  A route is a chain of middlewares before a handler (the protected operation). Hono runs
  them in order on the context: a middleware that answers or throws ends the chain, and
  the handler runs only after every middleware has called \<^verbatim>\<open>next\<close>.
\<close>

datatype 'a outcome = Denied response | Failed error | Invoked 'a

fun dispatch :: "(ctx \<Rightarrow> step) list \<Rightarrow> (ctx \<Rightarrow> 'a) \<Rightarrow> ctx \<Rightarrow> 'a outcome" where
  "dispatch [] handler c = Invoked (handler c)"
| "dispatch (m # ms) handler c =
    (case m c of
       Respond r \<Rightarrow> Denied r
     | Throw e \<Rightarrow> Failed e
     | Next c' \<Rightarrow> dispatch ms handler c')"

section \<open>modules/me: the membership endpoint\<close>

record organization =
  org_id :: string
  org_name :: string
  org_slug :: "string option"
  org_logo :: "string option"
  org_createdAt :: string

record MembershipSummary =
  s_user :: "auth_user option"
  s_member :: "OrganizationMember option"
  s_organization :: "organization option"
  s_role :: role
  s_permissions :: "permission list"
  s_can :: "bool js_object"

text \<open>
  The handler of \<^verbatim>\<open>GET /membership\<close>, on the context the guard before it has filled.
  \<open>findUnique\<close> is the organization collection's lookup by id; it rejects a missing id.
  \<^verbatim>\<open>permissions.includes\<close> raises a TypeError when \<^verbatim>\<open>ROLE_PERMISSIONS[role]\<close> is not
  an array, which is also the case for an unset role (the enumeration of permissions is
  not empty, so the callback runs).
\<close>

definition membership_handler ::
  "(string \<Rightarrow> organization option) \<Rightarrow> ctx \<Rightarrow> error + MembershipSummary" where
  "membership_handler findUnique c =
    (case c_organizationId c of
       None \<Rightarrow> Inl PrismaClientValidationError
     | Some organizationId \<Rightarrow>
        (case c_role c of
           None \<Rightarrow> Inl TypeError
         | Some role \<Rightarrow>
            (case js_get ROLE_PERMISSIONS role of
               Val permissions \<Rightarrow>
                 Inr \<lparr>s_user = c_user c,
                      s_member = c_member c,
                      s_organization = findUnique organizationId,
                      s_role = role,
                      s_permissions = permissions,
                      s_can = Object_fromEntries
                        (map (\<lambda>permission. (permission, permission \<in> set permissions))
                             (Object_values Permission))\<rparr>
             | Builtin k \<Rightarrow> Inl TypeError
             | Undefined \<Rightarrow> Inl TypeError)))"

text \<open>The route: \<^verbatim>\<open>new Hono().use(requireOrganizationContext).get("/membership", ...)\<close>.\<close>

definition meRoutes ::
  "member_row list \<Rightarrow> (string \<Rightarrow> organization option) \<Rightarrow> request
    \<Rightarrow> (error + MembershipSummary) outcome" where
  "meRoutes db findUnique req =
    dispatch [requireOrganizationContext db req] (membership_handler findUnique) empty_ctx"

section \<open>rbac-client.ts and use-rbac: the client side\<close>

text \<open>
  The request that \<^verbatim>\<open>client.api.me.membership.$get()\<close> sends: it carries the caller's
  session (null when the caller has none) and nothing else, so no query parameter; the
  route \<^verbatim>\<open>/api/me/membership\<close> has no path parameter.
\<close>

definition membership_get_request :: "session_data option \<Rightarrow> request" where
  "membership_get_request session =
    \<lparr>getSession = session, query = (\<lambda>k. None), param = (\<lambda>k. None)\<rparr>"

text \<open>
  \<^verbatim>\<open>fetchMembership()\<close>, for a caller with the given session, against a server with the
  given collections: it sends the request above and reads the answer of the endpoint. It
  returns the summary when the response is ok; otherwise it throws an Error whose message
  is the body's \<^verbatim>\<open>message\<close> when the body has one, and a fixed text when it has none (an
  uncaught exception of the server is answered without a JSON body).
\<close>

definition fetchMembership ::
  "member_row list \<Rightarrow> (string \<Rightarrow> organization option) \<Rightarrow> session_data option
    \<Rightarrow> string + MembershipSummary" where
  "fetchMembership db findUnique session =
    (case meRoutes db findUnique (membership_get_request session) of
       Invoked (Inr summary) \<Rightarrow> Inr summary
     | Denied r \<Rightarrow> Inl (if message r \<noteq> [] then message r else ''Failed to fetch membership'')
     | _ \<Rightarrow> Inl ''Failed to fetch membership'')"

text \<open>
  \<^verbatim>\<open>swr.data\<close> once the first fetch has settled (nothing cached before it): the summary,
  or undefined after an error.
\<close>

definition swr_data :: "string + MembershipSummary \<Rightarrow> MembershipSummary option" where
  "swr_data fetched = (case fetched of Inl e \<Rightarrow> None | Inr summary \<Rightarrow> Some summary)"

text \<open>
  An argument of type \<^verbatim>\<open>T | T[]\<close>, and the options object with its optional field. An
  absent options argument defaults to the empty object, and an absent \<^verbatim>\<open>requireAll\<close>
  to false.
\<close>

datatype 'a one_or_many = One 'a | Many "'a list"

record PermissionCheckOptions =
  requireAll :: "bool option"

text \<open>The truthiness of \<^verbatim>\<open>membership.can[permission]\<close>: a built-in is an object, hence truthy.\<close>

fun js_truthy :: "bool js_val \<Rightarrow> bool" where
  "js_truthy (Val b) = b"
| "js_truthy (Builtin k) = True"
| "js_truthy Undefined = False"

definition hasRole :: "role one_or_many \<Rightarrow> MembershipSummary option \<Rightarrow> bool" where
  "hasRole role membership =
    (case membership of
       None \<Rightarrow> False
     | Some m \<Rightarrow>
        (let targetRoles = (case role of Many rs \<Rightarrow> rs | One r \<Rightarrow> [r])
         in s_role m \<in> set targetRoles))"

definition membershipHasPermission ::
  "permission one_or_many \<Rightarrow> MembershipSummary option \<Rightarrow> PermissionCheckOptions option \<Rightarrow> bool" where
  "membershipHasPermission permissions membership options =
    (case membership of
       None \<Rightarrow> False
     | Some m \<Rightarrow>
        (let targetPermissions = (case permissions of Many ps \<Rightarrow> ps | One p \<Rightarrow> [p]);
             requireAllFlag =
               (case options of
                  None \<Rightarrow> False
                | Some opts \<Rightarrow> (case requireAll opts of None \<Rightarrow> False | Some b \<Rightarrow> b))
         in if requireAllFlag then
              list_all (\<lambda>permission. js_truthy (js_get (s_can m) permission)) targetPermissions
            else
              list_ex (\<lambda>permission. js_truthy (js_get (s_can m) permission)) targetPermissions))"

definition listPermissions :: "MembershipSummary option \<Rightarrow> permission list" where
  "listPermissions membership = (case membership of None \<Rightarrow> [] | Some m \<Rightarrow> s_permissions m)"

text \<open>
  \<^verbatim>\<open>useRBAC(options).can(permissions, override)\<close>, with \<open>data\<close> the hook's \<^verbatim>\<open>swr.data\<close>
  and \<open>permissionOptions\<close> the hook's option: \<^verbatim>\<open>override ?? permissionOptions\<close>.
\<close>

definition can ::
  "MembershipSummary option \<Rightarrow> PermissionCheckOptions option
    \<Rightarrow> permission one_or_many \<Rightarrow> PermissionCheckOptions option \<Rightarrow> bool" where
  "can data permissionOptions permissions override =
    membershipHasPermission permissions data
      (case override of None \<Rightarrow> permissionOptions | Some opts \<Rightarrow> Some opts)"

section \<open>The resolver in the specification's words\<close>

text \<open>
  The specification describes the choice of the organization as: the hints are considered
  in a fixed order and the first non-empty hint wins. This definition follows those words
  (it is not taken from the code) and is compared with the code below.
\<close>

definition spec_first_non_empty_hint :: "string option list \<Rightarrow> string option" where
  "spec_first_non_empty_hint hints = (case find truthy hints of None \<Rightarrow> None | Some h \<Rightarrow> h)"

section \<open>Sample data\<close>

text \<open>
  A small membership collection and two kinds of requests, used to evaluate the guards on
  concrete inputs: a request with a session (user id, active organization, query
  parameter \<^verbatim>\<open>organizationId\<close>) and a request without a session.
\<close>

definition sample_db :: "member_row list" where
  "sample_db =
    [\<lparr>row_userId = ''u1'', row_organizationId = ''org1'', row_role = ''TRAINER''\<rparr>,
     \<lparr>row_userId = ''u2'', row_organizationId = ''org1'', row_role = ''USER''\<rparr>]"

definition sample_request :: "string \<Rightarrow> string option \<Rightarrow> string option \<Rightarrow> request" where
  "sample_request uid active q =
    \<lparr>getSession = Some \<lparr>sd_user = \<lparr>user_id = uid, user_name = None, user_email = []\<rparr>,
                          sd_session = \<lparr>activeOrganizationId = active\<rparr>\<rparr>,
     query = (\<lambda>k. if k = ''organizationId'' then q else None),
     param = (\<lambda>k. None)\<rparr>"

definition anonymous_request :: request where
  "anonymous_request = \<lparr>getSession = None, query = (\<lambda>k. None), param = (\<lambda>k. None)\<rparr>"

section \<open>Auxiliary facts\<close>

subsection \<open>The constants and the tables\<close>

lemma role_distinct:
  "OWNER \<noteq> TRAINER" "OWNER \<noteq> USER" "TRAINER \<noteq> USER"
  "TRAINER \<noteq> OWNER" "USER \<noteq> OWNER" "USER \<noteq> TRAINER"
  by (simp_all add: OWNER_def TRAINER_def USER_def)

lemma isRole_cases: "isRole r \<longleftrightarrow> r = OWNER \<or> r = TRAINER \<or> r = USER"
  by (auto simp: isRole_def Object_values_def Role_def)

lemma isRole_nonempty: "isRole r \<Longrightarrow> r \<noteq> []"
  by (auto simp: isRole_cases OWNER_def TRAINER_def USER_def)

lemma role_nonempty: "TRAINER \<noteq> []" "USER \<noteq> []" "OWNER \<noteq> []"
  by (simp_all add: isRole_nonempty isRole_cases)

lemma hierarchy_get:
  "js_get hierarchy OWNER = Val 3" "js_get hierarchy TRAINER = Val 2" "js_get hierarchy USER = Val 1"
  by (simp_all add: js_get_def hierarchy_def role_distinct)

lemma hierarchy_get_Val: "js_get hierarchy r = Val n \<Longrightarrow> isRole r"
  by (auto simp: js_get_def hierarchy_def isRole_cases split: option.splits if_splits)

lemma table_get:
  "js_get ROLE_PERMISSIONS OWNER = Val (the (map_of ROLE_PERMISSIONS OWNER))"
  "js_get ROLE_PERMISSIONS TRAINER = Val (the (map_of ROLE_PERMISSIONS TRAINER))"
  "js_get ROLE_PERMISSIONS USER = Val (the (map_of ROLE_PERMISSIONS USER))"
  by (simp_all add: js_get_def ROLE_PERMISSIONS_def role_distinct)

lemma table_get_declared:
  "isRole r \<Longrightarrow> js_get ROLE_PERMISSIONS r = Val (the (map_of ROLE_PERMISSIONS r))"
  by (auto simp: isRole_cases table_get)

lemma table_get_Val: "js_get ROLE_PERMISSIONS r = Val ps \<Longrightarrow> isRole r"
  by (auto simp: js_get_def ROLE_PERMISSIONS_def isRole_cases split: option.splits if_splits)

lemma absent_get:
  "\<not> isRole r \<Longrightarrow> r \<notin> set Object_prototype_keys \<Longrightarrow> js_get ROLE_PERMISSIONS r = Undefined"
  "\<not> isRole r \<Longrightarrow> r \<notin> set Object_prototype_keys \<Longrightarrow> js_get hierarchy r = Undefined"
  by (auto simp: js_get_def ROLE_PERMISSIONS_def hierarchy_def isRole_cases split: option.splits)

lemma table_entries:
  "the (map_of ROLE_PERMISSIONS OWNER) = Object_values Permission"
  "the (map_of ROLE_PERMISSIONS TRAINER) =
     [VIEW_ORGANIZATION, VIEW_MEMBERS, VIEW_USERS,
      CREATE_WORKOUTS, EDIT_WORKOUTS, DELETE_WORKOUTS, VIEW_WORKOUTS, ASSIGN_WORKOUTS,
      MANAGE_SCHEDULE, VIEW_SCHEDULE, VIEW_ANALYTICS, VIEW_SETTINGS]"
  "the (map_of ROLE_PERMISSIONS USER) =
     [VIEW_ORGANIZATION, VIEW_WORKOUTS, VIEW_SCHEDULE, VIEW_SETTINGS]"
  by (simp_all add: ROLE_PERMISSIONS_def role_distinct Object_values_def Permission_def)

subsection \<open>The evaluator on a declared role\<close>

lemma some_js_pure: "some_js (\<lambda>x. Inr (P x)) xs = Inr (list_ex P xs)"
  by (induction xs) simp_all

lemma every_js_pure: "every_js (\<lambda>x. Inr (P x)) xs = Inr (list_all P xs)"
  by (induction xs) simp_all

lemma some_js_all_false: "(\<And>x. f x = Inr False) \<Longrightarrow> some_js f xs = Inr False"
  by (induction xs) simp_all

lemma hasPermission_Val:
  "js_get ROLE_PERMISSIONS r = Val perms \<Longrightarrow> hasPermission r p = Inr (p \<in> set perms)"
  by (simp add: hasPermission_def)

lemma hasAnyPermission_Val:
  "js_get ROLE_PERMISSIONS r = Val perms \<Longrightarrow>
   hasAnyPermission r ps = Inr (list_ex (\<lambda>p. p \<in> set perms) ps)"
  by (simp add: hasAnyPermission_def hasPermission_Val some_js_pure)

lemma hasAllPermissions_Val:
  "js_get ROLE_PERMISSIONS r = Val perms \<Longrightarrow>
   hasAllPermissions r ps = Inr (list_all (\<lambda>p. p \<in> set perms) ps)"
  by (simp add: hasAllPermissions_def hasPermission_Val every_js_pure)

lemma hasPermission_declared:
  "hasPermission OWNER p = Inr (p \<in> set (the (map_of ROLE_PERMISSIONS OWNER)))"
  "hasPermission TRAINER p = Inr (p \<in> set (the (map_of ROLE_PERMISSIONS TRAINER)))"
  "hasPermission USER p = Inr (p \<in> set (the (map_of ROLE_PERMISSIONS USER)))"
  by (simp_all add: hasPermission_def table_get)

lemma declared_any: "isRole r \<Longrightarrow> \<exists>b. hasAnyPermission r ps = Inr b"
  by (simp add: hasAnyPermission_Val[OF table_get_declared])

lemma declared_all: "isRole r \<Longrightarrow> \<exists>b. hasAllPermissions r ps = Inr b"
  by (simp add: hasAllPermissions_Val[OF table_get_declared])

lemma user_le_trainer:
  "hasPermission USER p = Inr True \<Longrightarrow> hasPermission TRAINER p = Inr True"
  by (auto simp: hasPermission_declared table_entries)

lemma trainer_le_owner:
  "hasPermission TRAINER p = Inr True \<Longrightarrow> hasPermission OWNER p = Inr True"
  by (auto simp: hasPermission_declared table_entries Object_values_def Permission_def)

lemma hasPermission_True_declared: "hasPermission r p = Inr True \<Longrightarrow> isRole r"
  by (auto simp: hasPermission_def split: js_val.splits dest: table_get_Val)

lemma hasRoleHierarchy_declared_right:
  "hasRoleHierarchy txt r1 r2 \<Longrightarrow> isRole r2 \<Longrightarrow> isRole r1"
  by (cases "js_get hierarchy r1")
     (auto simp: hasRoleHierarchy_def isRole_cases[of r2] hierarchy_get dest: hierarchy_get_Val)

lemma user_lacks_manage_settings: "hasPermission USER MANAGE_SETTINGS = Inr False"
  by (simp add: hasPermission_declared table_entries MANAGE_SETTINGS_def VIEW_ORGANIZATION_def
      VIEW_WORKOUTS_def VIEW_SCHEDULE_def VIEW_SETTINGS_def)

lemma trainer_workouts: "hasAllPermissions TRAINER [CREATE_WORKOUTS, ASSIGN_WORKOUTS] = Inr True"
  by (simp add: hasAllPermissions_def hasPermission_declared table_entries)

lemma isPermission_workouts: "isPermission CREATE_WORKOUTS" "isPermission ASSIGN_WORKOUTS"
  by (simp_all add: isPermission_def Object_values_def Permission_def)

subsection \<open>Objects built from entries\<close>

lemma map_of_fromEntries_acc:
  "map_of (foldl (\<lambda>obj (k, v). AList.update k v obj) acc es) =
   map_of acc ++ map_of (rev es)"
proof (induction es arbitrary: acc)
  case Nil
  then show ?case by simp
next
  case (Cons e es)
  obtain k v where e: "e = (k, v)" by (cases e)
  show ?case
    by (simp add: e Cons.IH update_conv' map_add_upd_left fun_eq_iff map_add_def
             split: option.splits)
qed

lemma keys_fromEntries_acc:
  "fst ` set (foldl (\<lambda>obj (k, v). AList.update k v obj) acc es) =
   fst ` set acc \<union> fst ` set es"
proof (induction es arbitrary: acc)
  case Nil
  then show ?case by simp
next
  case (Cons e es)
  obtain k v where e: "e = (k, v)" by (cases e)
  show ?case by (simp add: e Cons.IH dom_update)
qed

lemma map_of_tabulated:
  "map_of (map (\<lambda>k. (k, f k)) ks) k = (if k \<in> set ks then Some (f k) else None)"
  by (induction ks) auto

lemma map_of_fromEntries_tabulated:
  "map_of (Object_fromEntries (map (\<lambda>k. (k, f k)) ks)) k =
     (if k \<in> set ks then Some (f k) else None)"
  using map_of_tabulated[of f "rev ks" k]
  by (simp add: Object_fromEntries_def map_of_fromEntries_acc rev_map)

lemma keys_fromEntries_tabulated:
  "fst ` set (Object_fromEntries (map (\<lambda>k. (k, f k)) ks)) = set ks"
  by (simp add: Object_fromEntries_def keys_fromEntries_acc image_comp comp_def)

lemma js_get_can:
  "js_get (Object_fromEntries (map (\<lambda>k. (k, f k)) ks)) k =
     (if k \<in> set ks then Val (f k)
      else if k \<in> set Object_prototype_keys then Builtin k else Undefined)"
  by (simp add: js_get_def map_of_fromEntries_tabulated)

subsection \<open>The membership endpoint and the client\<close>

lemma membership_handler_Inr:
  assumes "membership_handler findUnique c = Inr s"
  shows "\<exists>r. c_role c = Some r \<and> s_role s = r
    \<and> js_get ROLE_PERMISSIONS r = Val (s_permissions s)
    \<and> s_can s = Object_fromEntries
         (map (\<lambda>p. (p, p \<in> set (s_permissions s))) (Object_values Permission))"
  using assms
  by (auto simp: membership_handler_def split: option.splits js_val.splits)

lemma membership_handler_declared:
  assumes "c_role c = Some r" and "isRole r" and "c_organizationId c = Some oid"
  shows "\<exists>s. membership_handler findUnique c = Inr s"
  using assms by (simp add: membership_handler_def table_get_declared)

lemma can_lookup:
  assumes "membership_handler findUnique c = Inr s" and "isPermission p"
  shows "js_truthy (js_get (s_can s) p) = (p \<in> set (s_permissions s))"
proof -
  from membership_handler_Inr[OF assms(1)]
  have "s_can s = Object_fromEntries
         (map (\<lambda>p. (p, p \<in> set (s_permissions s))) (Object_values Permission))"
    by blast
  then show ?thesis
    using assms(2) by (simp add: js_get_can isPermission_def)
qed

lemma client_any:
  assumes "membership_handler findUnique c = Inr s" and "\<forall>p\<in>set ps. isPermission p"
  shows "list_ex (\<lambda>p. js_truthy (js_get (s_can s) p)) ps
       = list_ex (\<lambda>p. p \<in> set (s_permissions s)) ps"
  using assms(2) by (induction ps) (simp_all add: can_lookup[OF assms(1)])

lemma client_all:
  assumes "membership_handler findUnique c = Inr s" and "\<forall>p\<in>set ps. isPermission p"
  shows "list_all (\<lambda>p. js_truthy (js_get (s_can s) p)) ps
       = list_all (\<lambda>p. p \<in> set (s_permissions s)) ps"
  using assms(2) by (induction ps) (simp_all add: can_lookup[OF assms(1)])

lemma evaluator_mirror:
  assumes h: "membership_handler findUnique c = Inr s" and r: "c_role c = Some r"
    and ps: "\<forall>p\<in>set ps. isPermission p"
  shows "hasAnyPermission r ps = Inr (membershipHasPermission (Many ps) (Some s) None)"
    and "hasAnyPermission r ps =
           Inr (membershipHasPermission (Many ps) (Some s) (Some \<lparr>requireAll = Some False\<rparr>))"
    and "hasAllPermissions r ps =
           Inr (membershipHasPermission (Many ps) (Some s) (Some \<lparr>requireAll = Some True\<rparr>))"
proof -
  from membership_handler_Inr[OF h] r
  have t: "js_get ROLE_PERMISSIONS r = Val (s_permissions s)" by auto
  show "hasAnyPermission r ps = Inr (membershipHasPermission (Many ps) (Some s) None)"
    by (simp add: hasAnyPermission_Val[OF t] membershipHasPermission_def client_any[OF h ps])
  show "hasAnyPermission r ps =
           Inr (membershipHasPermission (Many ps) (Some s) (Some \<lparr>requireAll = Some False\<rparr>))"
    by (simp add: hasAnyPermission_Val[OF t] membershipHasPermission_def client_any[OF h ps])
  show "hasAllPermissions r ps =
           Inr (membershipHasPermission (Many ps) (Some s) (Some \<lparr>requireAll = Some True\<rparr>))"
    by (simp add: hasAllPermissions_Val[OF t] membershipHasPermission_def client_all[OF h ps])
qed

subsection \<open>The context guard\<close>

lemma getOrganizationMember_role:
  "getOrganizationMember db u oid = Some m \<Longrightarrow> isRole (m_role m)"
  by (auto simp: getOrganizationMember_def split: option.splits if_splits)

lemma resolver_cases:
  "(\<exists>r. requireOrganizationContext db req c = Respond r)
   \<or> (\<exists>session oid m. getSession req = Some session
        \<and> resolveOrganizationId session req = Some oid \<and> oid \<noteq> []
        \<and> getOrganizationMember db (user_id (sd_user session)) oid = Some m
        \<and> requireOrganizationContext db req c =
            Next (c\<lparr>c_user := Some (sd_user session), c_session := Some (sd_session session),
                    c_organizationId := Some oid, c_role := Some (m_role m),
                    c_member := Some m\<rparr>))"
  by (auto simp: requireOrganizationContext_def split: option.splits)

lemma resolver_outcome [case_names deny pass]:
  obtains r where "requireOrganizationContext db req c = Respond r"
  | c' role oid where "requireOrganizationContext db req c = Next c'"
      "c_role c' = Some role" "isRole role" "c_organizationId c' = Some oid"
proof -
  from resolver_cases[of db req c]
  show thesis
  proof (elim disjE exE conjE)
    fix r assume "requireOrganizationContext db req c = Respond r"
    then show thesis by (rule that(1))
  next
    fix session oid m
    assume m: "getOrganizationMember db (user_id (sd_user session)) oid = Some m"
      and n: "requireOrganizationContext db req c =
            Next (c\<lparr>c_user := Some (sd_user session), c_session := Some (sd_session session),
                    c_organizationId := Some oid, c_role := Some (m_role m),
                    c_member := Some m\<rparr>)"
    from m have r: "isRole (m_role m)" by (rule getOrganizationMember_role)
    show thesis
    proof (rule that(2)[OF n _ r])
      show "c_role (c\<lparr>c_user := Some (sd_user session), c_session := Some (sd_session session),
                    c_organizationId := Some oid, c_role := Some (m_role m),
                    c_member := Some m\<rparr>) = Some (m_role m)" by simp
      show "c_organizationId (c\<lparr>c_user := Some (sd_user session),
                    c_session := Some (sd_session session),
                    c_organizationId := Some oid, c_role := Some (m_role m),
                    c_member := Some m\<rparr>) = Some oid" by simp
    qed
  qed
qed

lemma resolver_pass_iff:
  "(\<exists>c'. requireOrganizationContext db req c = Next c') \<longleftrightarrow>
   (\<exists>session oid m. getSession req = Some session
        \<and> resolveOrganizationId session req = Some oid \<and> oid \<noteq> []
        \<and> getOrganizationMember db (user_id (sd_user session)) oid = Some m)"
  by (auto simp: requireOrganizationContext_def split: option.splits if_splits)

lemma resolver_Next:
  assumes "requireOrganizationContext db req c = Next c'"
  shows "\<exists>session oid m. getSession req = Some session
        \<and> resolveOrganizationId session req = Some oid \<and> oid \<noteq> []
        \<and> getOrganizationMember db (user_id (sd_user session)) oid = Some m
        \<and> c_role c' = Some (m_role m)"
  using assms
  by (auto simp: requireOrganizationContext_def split: option.splits if_splits)

lemma resolver_never_throws: "requireOrganizationContext db req c \<noteq> Throw e"
  by (auto simp: requireOrganizationContext_def split: option.splits if_splits)

lemma all_hints_empty:
  "\<not> truthy a \<Longrightarrow> \<not> truthy q \<Longrightarrow> \<not> truthy p \<Longrightarrow> \<not> truthy (js_or (js_or a q) p)"
  by (simp add: js_or_def)

lemma resolve_first_non_empty:
  "spec_first_non_empty_hint [a, q, p] =
     (if truthy (js_or (js_or a q) p) then js_or (js_or a q) p else None)"
  by (auto simp: spec_first_non_empty_hint_def js_or_def truthy_def split: option.splits)

subsection \<open>The requirement guards\<close>

lemma requireRole_cases:
  "requireRole rs c = Next c \<and> (\<exists>r. c_role c = Some r \<and> r \<in> set rs)
   \<or> (\<exists>resp. requireRole rs c = Respond resp)"
  by (auto simp: requireRole_def split: option.splits)

lemma requirePermission_cases:
  assumes "c_role c = Some r" and "isRole r"
  shows "requirePermission ps c = Next c \<and> hasAnyPermission r ps = Inr True
   \<or> (\<exists>resp. requirePermission ps c = Respond resp)"
proof -
  obtain b where b: "hasAnyPermission r ps = Inr b"
    using declared_any[OF assms(2)] by blast
  have ne: "r \<noteq> []" by (rule isRole_nonempty[OF assms(2)])
  show ?thesis by (cases b) (simp_all add: requirePermission_def assms(1) b ne)
qed

lemma requireAllPermissions_cases:
  assumes "c_role c = Some r" and "isRole r"
  shows "requireAllPermissions ps c = Next c \<and> hasAllPermissions r ps = Inr True
   \<or> (\<exists>resp. requireAllPermissions ps c = Respond resp)"
proof -
  obtain b where b: "hasAllPermissions r ps = Inr b"
    using declared_all[OF assms(2)] by blast
  have ne: "r \<noteq> []" by (rule isRole_nonempty[OF assms(2)])
  show ?thesis by (cases b) (simp_all add: requireAllPermissions_def assms(1) b ne)
qed

lemma chain_role:
  assumes "\<not> (\<exists>session oid m. getSession req = Some session
        \<and> resolveOrganizationId session req = Some oid \<and> oid \<noteq> []
        \<and> getOrganizationMember db (user_id (sd_user session)) oid = Some m
        \<and> m_role m \<in> set rs)"
  shows "\<exists>r. dispatch [requireOrganizationContext db req, requireRole rs] h c = Denied r"
proof (cases "requireOrganizationContext db req c")
  case (Respond r)
  then show ?thesis by simp
next
  case (Next c')
  from resolver_Next[OF Next] assms have "\<not> (\<exists>r. c_role c' = Some r \<and> r \<in> set rs)"
    by auto
  with requireRole_cases[of rs c'] obtain resp where "requireRole rs c' = Respond resp"
    by blast
  with Next show ?thesis by simp
next
  case (Throw e)
  then show ?thesis by (simp add: resolver_never_throws)
qed

lemma chain_any:
  assumes "\<not> (\<exists>session oid m. getSession req = Some session
        \<and> resolveOrganizationId session req = Some oid \<and> oid \<noteq> []
        \<and> getOrganizationMember db (user_id (sd_user session)) oid = Some m
        \<and> hasAnyPermission (m_role m) ps = Inr True)"
  shows "\<exists>r. dispatch [requireOrganizationContext db req, requirePermission ps] h c = Denied r"
proof (cases "requireOrganizationContext db req c")
  case (Respond r)
  then show ?thesis by simp
next
  case (Next c')
  from resolver_Next[OF Next] obtain session oid m where
    m: "getSession req = Some session" "resolveOrganizationId session req = Some oid" "oid \<noteq> []"
      "getOrganizationMember db (user_id (sd_user session)) oid = Some m"
      "c_role c' = Some (m_role m)"
    by blast
  from m(4) have r: "isRole (m_role m)" by (rule getOrganizationMember_role)
  from m assms have "hasAnyPermission (m_role m) ps \<noteq> Inr True" by blast
  with requirePermission_cases[OF m(5) r, of ps]
  obtain resp where "requirePermission ps c' = Respond resp" by blast
  with Next show ?thesis by simp
next
  case (Throw e)
  then show ?thesis by (simp add: resolver_never_throws)
qed

lemma chain_all:
  assumes "\<not> (\<exists>session oid m. getSession req = Some session
        \<and> resolveOrganizationId session req = Some oid \<and> oid \<noteq> []
        \<and> getOrganizationMember db (user_id (sd_user session)) oid = Some m
        \<and> hasAllPermissions (m_role m) ps = Inr True)"
  shows "\<exists>r. dispatch [requireOrganizationContext db req, requireAllPermissions ps] h c = Denied r"
proof (cases "requireOrganizationContext db req c")
  case (Respond r)
  then show ?thesis by simp
next
  case (Next c')
  from resolver_Next[OF Next] obtain session oid m where
    m: "getSession req = Some session" "resolveOrganizationId session req = Some oid" "oid \<noteq> []"
      "getOrganizationMember db (user_id (sd_user session)) oid = Some m"
      "c_role c' = Some (m_role m)"
    by blast
  from m(4) have r: "isRole (m_role m)" by (rule getOrganizationMember_role)
  from m assms have "hasAllPermissions (m_role m) ps \<noteq> Inr True" by blast
  with requireAllPermissions_cases[OF m(5) r, of ps]
  obtain resp where "requireAllPermissions ps c' = Respond resp" by blast
  with Next show ?thesis by simp
next
  case (Throw e)
  then show ?thesis by (simp add: resolver_never_throws)
qed

lemma chain_base:
  assumes "\<not> (\<exists>session oid m. getSession req = Some session
        \<and> resolveOrganizationId session req = Some oid \<and> oid \<noteq> []
        \<and> getOrganizationMember db (user_id (sd_user session)) oid = Some m)"
  shows "\<exists>r. \<forall>ms. dispatch (requireOrganizationContext db req # ms) h c = Denied r"
proof (cases "requireOrganizationContext db req c")
  case (Respond r)
  then show ?thesis by simp
next
  case (Next c')
  with assms resolver_pass_iff[of db req c] show ?thesis by blast
next
  case (Throw e)
  then show ?thesis by (simp add: resolver_never_throws)
qed

lemma resolver_hint_free:
  assumes "\<forall>session. getSession req = Some session \<and> truthy (resolveOrganizationId session req)
             \<longrightarrow> truthy (activeOrganizationId (sd_session session))"
  shows "requireOrganizationContext db (membership_get_request (getSession req)) c =
         requireOrganizationContext db req c"
proof (cases "getSession req")
  case None
  then show ?thesis
    by (simp add: requireOrganizationContext_def membership_get_request_def)
next
  case (Some session)
  let ?a = "activeOrganizationId (sd_session session)"
  have free: "resolveOrganizationId session (membership_get_request (Some session)) =
                js_or (js_or ?a None) None"
    by (simp add: resolveOrganizationId_def membership_get_request_def)
  show ?thesis
  proof (cases "truthy ?a")
    case True
    then have "resolveOrganizationId session req = ?a"
      and "resolveOrganizationId session (membership_get_request (Some session)) = ?a"
      by (simp_all add: free resolveOrganizationId_def js_or_def)
    then show ?thesis
      by (simp add: requireOrganizationContext_def Some membership_get_request_def)
  next
    case False
    with assms Some have 1: "\<not> truthy (resolveOrganizationId session req)" by blast
    from False have 2: "\<not> truthy (resolveOrganizationId session (membership_get_request (Some session)))"
      by (simp add: free js_or_def truthy_def)
    have deny: "\<not> truthy v \<Longrightarrow>
        (case v of
           None \<Rightarrow> Respond \<lparr>status = 400, message = ''Organization ID is required''\<rparr>
         | Some organizationId \<Rightarrow>
             if organizationId = [] then
               Respond \<lparr>status = 400, message = ''Organization ID is required''\<rparr>
             else f organizationId)
        = Respond \<lparr>status = 400, message = ''Organization ID is required''\<rparr>" for v f
      by (cases v) (simp_all add: truthy_def)
    show ?thesis
      by (simp add: requireOrganizationContext_def Some membership_get_request_def
          deny[OF 1] deny[OF 2[unfolded membership_get_request_def]])
  qed
qed

lemma meRoutes_hint_free:
  assumes "\<forall>session. getSession req = Some session \<and> truthy (resolveOrganizationId session req)
             \<longrightarrow> truthy (activeOrganizationId (sd_session session))"
  shows "meRoutes db findUnique (membership_get_request (getSession req)) =
         meRoutes db findUnique req"
  by (simp add: meRoutes_def resolver_hint_free[OF assms])

lemma guard_mirror_any:
  assumes ps: "\<forall>p\<in>set ps. isPermission p"
    and act: "\<forall>session. getSession req = Some session \<and> truthy (resolveOrganizationId session req)
             \<longrightarrow> truthy (activeOrganizationId (sd_session session))"
  shows "(\<exists>v. dispatch [requireOrganizationContext db req, requirePermission ps] h empty_ctx = Invoked v)
     \<longleftrightarrow> can (swr_data (fetchMembership db findUnique (getSession req))) None (Many ps) None"
proof -
  note me = meRoutes_hint_free[OF act, of db findUnique]
  show ?thesis
  proof (cases db req empty_ctx rule: resolver_outcome)
    case (deny r)
    then show ?thesis
      by (simp add: fetchMembership_def me)
         (simp add: meRoutes_def swr_data_def can_def membershipHasPermission_def)
  next
    case (pass c' role oid)
    from membership_handler_declared[OF pass(2,3,4), where findUnique = findUnique]
    obtain s where s: "membership_handler findUnique c' = Inr s" by blast
    from membership_handler_Inr[OF s] pass(2)
    have t: "js_get ROLE_PERMISSIONS role = Val (s_permissions s)" by auto
    have ne: "role \<noteq> []" using pass(3) by (rule isRole_nonempty)
    show ?thesis
      using pass(1,2) ne
      by (simp add: fetchMembership_def me)
         (simp add: meRoutes_def s swr_data_def can_def
          requirePermission_def hasAnyPermission_Val[OF t]
          membershipHasPermission_def client_any[OF s ps])
  qed
qed

lemma guard_mirror_all:
  assumes ps: "\<forall>p\<in>set ps. isPermission p"
    and act: "\<forall>session. getSession req = Some session \<and> truthy (resolveOrganizationId session req)
             \<longrightarrow> truthy (activeOrganizationId (sd_session session))"
  shows "(\<exists>v. dispatch [requireOrganizationContext db req, requireAllPermissions ps] h empty_ctx = Invoked v)
     \<longleftrightarrow> can (swr_data (fetchMembership db findUnique (getSession req))) None (Many ps)
           (Some \<lparr>requireAll = Some True\<rparr>)"
proof -
  note me = meRoutes_hint_free[OF act, of db findUnique]
  show ?thesis
  proof (cases db req empty_ctx rule: resolver_outcome)
    case (deny r)
    then show ?thesis
      by (simp add: fetchMembership_def me)
         (simp add: meRoutes_def swr_data_def can_def membershipHasPermission_def)
  next
    case (pass c' role oid)
    from membership_handler_declared[OF pass(2,3,4), where findUnique = findUnique]
    obtain s where s: "membership_handler findUnique c' = Inr s" by blast
    from membership_handler_Inr[OF s] pass(2)
    have t: "js_get ROLE_PERMISSIONS role = Val (s_permissions s)" by auto
    have ne: "role \<noteq> []" using pass(3) by (rule isRole_nonempty)
    show ?thesis
      using pass(1,2) ne
      by (simp add: fetchMembership_def me)
         (simp add: meRoutes_def s swr_data_def can_def
          requireAllPermissions_def hasAllPermissions_Val[OF t]
          membershipHasPermission_def client_all[OF s ps])
  qed
qed

subsection \<open>The sample data\<close>

lemma sample_member_u1:
  "getOrganizationMember sample_db ''u1'' ''org1'' =
     Some \<lparr>m_userId = ''u1'', m_organizationId = ''org1'', m_role = TRAINER\<rparr>"
  by (simp add: getOrganizationMember_def findFirst_def sample_db_def isRole_cases TRAINER_def)

lemma sample_member_u2:
  "getOrganizationMember sample_db ''u2'' ''org1'' =
     Some \<lparr>m_userId = ''u2'', m_organizationId = ''org1'', m_role = USER\<rparr>"
  by (simp add: getOrganizationMember_def findFirst_def sample_db_def isRole_cases USER_def)

lemma sample_member_u3: "getOrganizationMember sample_db ''u3'' ''org1'' = None"
  by (simp add: getOrganizationMember_def findFirst_def sample_db_def)

lemma sample_context_u1_hinted:
  "requireOrganizationContext sample_db (sample_request ''u1'' None (Some ''org1'')) empty_ctx =
     Next \<lparr>c_user = Some \<lparr>user_id = ''u1'', user_name = None, user_email = []\<rparr>,
           c_session = Some \<lparr>activeOrganizationId = None\<rparr>,
           c_organizationId = Some ''org1'',
           c_role = Some TRAINER,
           c_member = Some \<lparr>m_userId = ''u1'', m_organizationId = ''org1'', m_role = TRAINER\<rparr>\<rparr>"
  by (simp add: requireOrganizationContext_def resolveOrganizationId_def js_or_def truthy_def
      sample_request_def sample_member_u1 empty_ctx_def)

lemma sample_fetch_without_active_organization:
  "fetchMembership sample_db Map.empty (getSession (sample_request ''u1'' None (Some ''org1''))) =
     Inl ''Organization ID is required''"
  by (simp add: fetchMembership_def meRoutes_def membership_get_request_def sample_request_def
      requireOrganizationContext_def resolveOrganizationId_def js_or_def truthy_def)

lemma trainer_creates_workouts: "hasAnyPermission TRAINER [CREATE_WORKOUTS] = Inr True"
  by (simp add: hasAnyPermission_def hasPermission_declared table_entries)

section \<open>Server and client agree\<close>

text \<open>
  Claim C1, as amended. For a list \<open>ps\<close> of permissions of the enumeration: the server's
  \<^verbatim>\<open>hasAnyPermission\<close> (\<^verbatim>\<open>hasAllPermissions\<close>) on a role returns, without raising, the
  value the client's \<^verbatim>\<open>hasPermission\<close> computes with \<^verbatim>\<open>requireAll\<close> false or absent (true)
  on the summary the membership endpoint builds for that role. The client fetches its
  summary with a request that carries the session and no organization hint. Hence, for one
  caller and one membership collection, and provided that an organization the guard
  resolves for the guarded request is the session's active organization, the guard chain
  of a permission requirement invokes the protected handler exactly when the client's
  \<^verbatim>\<open>can\<close> answers true on the fetched summary. The summary reaches the client as JSON,
  which keeps its strings, booleans and keys, so the transport is the identity here.
\<close>

theorem cross_boundary_consistency:
  assumes "\<forall>p\<in>set ps. isPermission p"
  shows "(c_role c = Some r \<and> membership_handler findUnique c = Inr s \<longrightarrow>
            hasAnyPermission r ps = Inr (membershipHasPermission (Many ps) (Some s) None)
          \<and> hasAnyPermission r ps =
              Inr (membershipHasPermission (Many ps) (Some s) (Some \<lparr>requireAll = Some False\<rparr>))
          \<and> hasAllPermissions r ps =
              Inr (membershipHasPermission (Many ps) (Some s) (Some \<lparr>requireAll = Some True\<rparr>)))
    \<and> ((\<forall>session. getSession req = Some session \<and> truthy (resolveOrganizationId session req)
            \<longrightarrow> truthy (activeOrganizationId (sd_session session)))
        \<longrightarrow>
          ((\<exists>v. dispatch [requireOrganizationContext db req, requirePermission ps] h empty_ctx
                  = Invoked v)
            \<longleftrightarrow> can (swr_data (fetchMembership db findUnique (getSession req))) None
                  (Many ps) None)
        \<and> ((\<exists>v. dispatch [requireOrganizationContext db req, requireAllPermissions ps] h empty_ctx
                  = Invoked v)
            \<longleftrightarrow> can (swr_data (fetchMembership db findUnique (getSession req))) None
                  (Many ps) (Some \<lparr>requireAll = Some True\<rparr>)))"
  using assms evaluator_mirror[of findUnique c s r ps]
    guard_mirror_any[of ps req db h findUnique] guard_mirror_all[of ps req db h findUnique]
  by blast

text \<open>
  The claim as written fails for an organization that the guard reaches through a hint:
  a trainer of \<open>org1\<close> whose session has no active organization asks with
  \<^verbatim>\<open>?organizationId=org1\<close>. The guard resolves \<open>org1\<close> and lets the request pass; the
  client's fetch, which sends no hint, is answered 400, so there is no summary and
  \<^verbatim>\<open>can\<close> is false.
\<close>

theorem hinted_request_mirror_counterexample:
  "isPermission CREATE_WORKOUTS
   \<and> getOrganizationMember sample_db ''u1'' ''org1'' =
        Some \<lparr>m_userId = ''u1'', m_organizationId = ''org1'', m_role = TRAINER\<rparr>
   \<and> dispatch [requireOrganizationContext sample_db (sample_request ''u1'' None (Some ''org1'')),
                requirePermission [CREATE_WORKOUTS]] c_role empty_ctx
       = Invoked (Some TRAINER)
   \<and> fetchMembership sample_db Map.empty (getSession (sample_request ''u1'' None (Some ''org1'')))
       = Inl ''Organization ID is required''
   \<and> \<not> can (swr_data (fetchMembership sample_db Map.empty
                (getSession (sample_request ''u1'' None (Some ''org1'')))))
          None (Many [CREATE_WORKOUTS]) None"
proof -
  have g: "dispatch [requireOrganizationContext sample_db (sample_request ''u1'' None (Some ''org1'')),
                requirePermission [CREATE_WORKOUTS]] c_role empty_ctx
       = Invoked (Some TRAINER)"
    by (simp add: sample_context_u1_hinted requirePermission_def trainer_creates_workouts
        role_nonempty)
  have f: "\<not> can (swr_data (fetchMembership sample_db Map.empty
                (getSession (sample_request ''u1'' None (Some ''org1'')))))
          None (Many [CREATE_WORKOUTS]) None"
    by (simp add: sample_fetch_without_active_organization swr_data_def can_def
        membershipHasPermission_def)
  from g f isPermission_workouts(1) sample_member_u1 sample_fetch_without_active_organization
  show ?thesis by blast
qed

theorem cross_boundary_consistency_witness:
  "isPermission CREATE_WORKOUTS \<and> isPermission ASSIGN_WORKOUTS
   \<and> truthy (activeOrganizationId \<lparr>activeOrganizationId = Some ''org1''\<rparr>)
   \<and> dispatch [requireOrganizationContext sample_db
                  (sample_request ''u1'' (Some ''org1'') (Some ''org2'')),
                requireAllPermissions [CREATE_WORKOUTS, ASSIGN_WORKOUTS]] c_role empty_ctx
       = Invoked (Some TRAINER)
   \<and> can (swr_data (fetchMembership sample_db Map.empty
             (getSession (sample_request ''u1'' (Some ''org1'') (Some ''org2'')))))
        None (Many [CREATE_WORKOUTS, ASSIGN_WORKOUTS]) (Some \<lparr>requireAll = Some True\<rparr>)
   \<and> (\<exists>s. membership_handler Map.empty
               (empty_ctx\<lparr>c_organizationId := Some ''org1'', c_role := Some TRAINER\<rparr>) = Inr s
          \<and> membershipHasPermission (Many [CREATE_WORKOUTS, ASSIGN_WORKOUTS]) (Some s)
               (Some \<lparr>requireAll = Some True\<rparr>))"
proof -
  let ?req = "sample_request ''u1'' (Some ''org1'') (Some ''org2'')"
  have p: "\<forall>p\<in>set [CREATE_WORKOUTS, ASSIGN_WORKOUTS]. isPermission p"
    by (simp add: isPermission_workouts)
  have a: "\<forall>session. getSession ?req = Some session \<and> truthy (resolveOrganizationId session ?req)
            \<longrightarrow> truthy (activeOrganizationId (sd_session session))"
    by (auto simp: sample_request_def truthy_def)
  have t: "truthy (activeOrganizationId \<lparr>activeOrganizationId = Some ''org1''\<rparr>)"
    by (simp add: truthy_def)
  have n: "requireOrganizationContext sample_db ?req empty_ctx =
     Next \<lparr>c_user = Some \<lparr>user_id = ''u1'', user_name = None, user_email = []\<rparr>,
           c_session = Some \<lparr>activeOrganizationId = Some ''org1''\<rparr>,
           c_organizationId = Some ''org1'',
           c_role = Some TRAINER,
           c_member = Some \<lparr>m_userId = ''u1'', m_organizationId = ''org1'', m_role = TRAINER\<rparr>\<rparr>"
    by (simp add: requireOrganizationContext_def resolveOrganizationId_def js_or_def truthy_def
        sample_request_def sample_member_u1 empty_ctx_def)
  have g: "dispatch [requireOrganizationContext sample_db ?req,
                requireAllPermissions [CREATE_WORKOUTS, ASSIGN_WORKOUTS]] c_role empty_ctx
       = Invoked (Some TRAINER)"
    by (simp add: n requireAllPermissions_def trainer_workouts role_nonempty)
  let ?c = "empty_ctx\<lparr>c_organizationId := Some ''org1'', c_role := Some TRAINER\<rparr>"
  have "c_role ?c = Some TRAINER" and "isRole TRAINER" and "c_organizationId ?c = Some ''org1''"
    by (simp_all add: isRole_cases)
  from membership_handler_declared[OF this, of Map.empty]
  obtain s where s: "membership_handler Map.empty ?c = Inr s" by blast
  have r: "c_role ?c = Some TRAINER" by simp
  from r s cross_boundary_consistency[OF p, where c = ?c and r = TRAINER and s = s
      and findUnique = Map.empty]
  have "hasAllPermissions TRAINER [CREATE_WORKOUTS, ASSIGN_WORKOUTS] =
          Inr (membershipHasPermission (Many [CREATE_WORKOUTS, ASSIGN_WORKOUTS]) (Some s)
                 (Some \<lparr>requireAll = Some True\<rparr>))"
    by blast
  then have "membershipHasPermission (Many [CREATE_WORKOUTS, ASSIGN_WORKOUTS]) (Some s)
                 (Some \<lparr>requireAll = Some True\<rparr>)"
    by (simp add: trainer_workouts)
  with s have e: "\<exists>s. membership_handler Map.empty ?c = Inr s
          \<and> membershipHasPermission (Many [CREATE_WORKOUTS, ASSIGN_WORKOUTS]) (Some s)
               (Some \<lparr>requireAll = Some True\<rparr>)"
    by blast
  from g a cross_boundary_consistency[OF p, where db = sample_db and req = ?req and h = c_role
      and findUnique = Map.empty]
  have "can (swr_data (fetchMembership sample_db Map.empty (getSession ?req)))
        None (Many [CREATE_WORKOUTS, ASSIGN_WORKOUTS]) (Some \<lparr>requireAll = Some True\<rparr>)"
    by blast
  with g e t isPermission_workouts show ?thesis by blast
qed

section \<open>The membership summary\<close>

text \<open>
  Claim C2. For every declared role, on a context that holds the role and an organization
  id, the handler of the membership endpoint returns a summary whose \<^verbatim>\<open>permissions\<close> is
  the entry \<^verbatim>\<open>ROLE_PERMISSIONS[role]\<close>, whose \<^verbatim>\<open>can\<close> has exactly the permissions of the
  enumeration as keys, and where \<^verbatim>\<open>can[p]\<close> is the boolean "\<^verbatim>\<open>permissions\<close> includes
  \<open>p\<close>" for every permission \<open>p\<close> of the enumeration, granted or not.
\<close>

theorem membership_summary_invariant:
  assumes "c_role c = Some r" and "isRole r" and "c_organizationId c = Some oid"
  shows "\<exists>s. membership_handler findUnique c = Inr s
    \<and> s_role s = r
    \<and> js_get ROLE_PERMISSIONS r = Val (s_permissions s)
    \<and> fst ` set (s_can s) = set (Object_values Permission)
    \<and> (\<forall>p. isPermission p \<longrightarrow> js_get (s_can s) p = Val (p \<in> set (s_permissions s)))"
  using assms
  by (simp add: membership_handler_def table_get_declared keys_fromEntries_tabulated
      js_get_can isPermission_def)

theorem membership_summary_witness:
  "\<exists>s. membership_handler (\<lambda>k. None)
          (empty_ctx\<lparr>c_organizationId := Some ''org1'', c_role := Some USER\<rparr>) = Inr s
     \<and> s_role s = USER
     \<and> s_permissions s = [VIEW_ORGANIZATION, VIEW_WORKOUTS, VIEW_SCHEDULE, VIEW_SETTINGS]
     \<and> js_get (s_can s) VIEW_SCHEDULE = Val True
     \<and> js_get (s_can s) ASSIGN_WORKOUTS = Val False"
proof -
  have r: "c_role (empty_ctx\<lparr>c_organizationId := Some ''org1'', c_role := Some USER\<rparr>) = Some USER"
    and o: "c_organizationId (empty_ctx\<lparr>c_organizationId := Some ''org1'', c_role := Some USER\<rparr>)
              = Some ''org1''"
    by simp_all
  have u: "isRole USER" by (simp add: isRole_cases)
  have t: "js_get ROLE_PERMISSIONS USER =
             Val [VIEW_ORGANIZATION, VIEW_WORKOUTS, VIEW_SCHEDULE, VIEW_SETTINGS]"
    by (simp add: table_get table_entries)
  have p: "isPermission VIEW_SCHEDULE" "isPermission ASSIGN_WORKOUTS"
    by (simp_all add: isPermission_def Object_values_def Permission_def)
  have n: "ASSIGN_WORKOUTS \<notin> set [VIEW_ORGANIZATION, VIEW_WORKOUTS, VIEW_SCHEDULE, VIEW_SETTINGS]"
    by (simp add: ASSIGN_WORKOUTS_def VIEW_ORGANIZATION_def VIEW_WORKOUTS_def VIEW_SCHEDULE_def
        VIEW_SETTINGS_def)
  from membership_summary_invariant[OF r u o, of "\<lambda>k. None"]
  obtain s where s: "membership_handler (\<lambda>k. None)
          (empty_ctx\<lparr>c_organizationId := Some ''org1'', c_role := Some USER\<rparr>) = Inr s"
    "s_role s = USER" "js_get ROLE_PERMISSIONS USER = Val (s_permissions s)"
    "\<forall>p. isPermission p \<longrightarrow> js_get (s_can s) p = Val (p \<in> set (s_permissions s))"
    by blast
  from s(3) t
  have e: "s_permissions s = [VIEW_ORGANIZATION, VIEW_WORKOUTS, VIEW_SCHEDULE, VIEW_SETTINGS]"
    by simp
  from s(4) p have "js_get (s_can s) VIEW_SCHEDULE = Val (VIEW_SCHEDULE \<in> set (s_permissions s))"
    and "js_get (s_can s) ASSIGN_WORKOUTS = Val (ASSIGN_WORKOUTS \<in> set (s_permissions s))"
    by blast+
  with n e have "js_get (s_can s) VIEW_SCHEDULE = Val True"
    and "js_get (s_can s) ASSIGN_WORKOUTS = Val False"
    by simp_all
  with s(1,2) e show ?thesis by blast
qed

section \<open>The denial responses\<close>

text \<open>
  Claim C3, as amended. The guards answer a failed step as follows. No session: status 401,
  message "Unauthorized". A session but all three organization hints empty: status 400,
  message "Organization ID is required". An organization resolved but no valid membership
  of the user in it: status 403, message "User is not a member of this organization". A
  role outside the allowed roles: status 403, message "Access denied. Required role: "
  followed by the allowed roles joined with " or ". An unmet any-of permission requirement:
  status 403, message "Access denied. Required permission: " followed by the permissions
  joined with " or ". An unmet all-of permission requirement: status 403, message
  "Access denied. Required all permissions: " followed by the permissions joined with
  " and ": the all-of guard has a message of its own, not the message of the any-of guard.
\<close>

theorem denial_responses:
  "(getSession req = None \<longrightarrow>
      requireOrganizationContext db req c =
        Respond \<lparr>status = 401, message = ''Unauthorized''\<rparr>)
   \<and> (getSession req = Some session
        \<and> \<not> truthy (activeOrganizationId (sd_session session))
        \<and> \<not> truthy (query req ''organizationId'')
        \<and> \<not> truthy (param req ''organizationId'') \<longrightarrow>
      requireOrganizationContext db req c =
        Respond \<lparr>status = 400, message = ''Organization ID is required''\<rparr>)
   \<and> (getSession req = Some session
        \<and> resolveOrganizationId session req = Some oid \<and> oid \<noteq> []
        \<and> getOrganizationMember db (user_id (sd_user session)) oid = None \<longrightarrow>
      requireOrganizationContext db req c =
        Respond \<lparr>status = 403, message = ''User is not a member of this organization''\<rparr>)
   \<and> (c_role c = Some r \<and> r \<notin> set rs \<longrightarrow>
      requireRole rs c =
        Respond \<lparr>status = 403,
                 message = ''Access denied. Required role: '' @ join '' or '' rs\<rparr>)
   \<and> (c_role c = Some r \<and> r \<noteq> [] \<and> hasAnyPermission r ps = Inr False \<longrightarrow>
      requirePermission ps c =
        Respond \<lparr>status = 403,
                 message = ''Access denied. Required permission: '' @ join '' or '' ps\<rparr>)
   \<and> (c_role c = Some r \<and> r \<noteq> [] \<and> hasAllPermissions r ps = Inr False \<longrightarrow>
      requireAllPermissions ps c =
        Respond \<lparr>status = 403,
                 message = ''Access denied. Required all permissions: '' @ join '' and '' ps\<rparr>)"
proof (intro conjI impI)
  assume "getSession req = None"
  then show "requireOrganizationContext db req c =
        Respond \<lparr>status = 401, message = ''Unauthorized''\<rparr>"
    by (simp add: requireOrganizationContext_def)
next
  assume a: "getSession req = Some session
        \<and> \<not> truthy (activeOrganizationId (sd_session session))
        \<and> \<not> truthy (query req ''organizationId'')
        \<and> \<not> truthy (param req ''organizationId'')"
  then have "\<not> truthy (resolveOrganizationId session req)"
    by (simp add: resolveOrganizationId_def all_hints_empty)
  with a show "requireOrganizationContext db req c =
        Respond \<lparr>status = 400, message = ''Organization ID is required''\<rparr>"
    by (simp add: requireOrganizationContext_def truthy_def split: option.splits)
next
  assume "getSession req = Some session
        \<and> resolveOrganizationId session req = Some oid \<and> oid \<noteq> []
        \<and> getOrganizationMember db (user_id (sd_user session)) oid = None"
  then show "requireOrganizationContext db req c =
        Respond \<lparr>status = 403, message = ''User is not a member of this organization''\<rparr>"
    by (simp add: requireOrganizationContext_def)
next
  assume "c_role c = Some r \<and> r \<notin> set rs"
  then show "requireRole rs c =
        Respond \<lparr>status = 403,
                 message = ''Access denied. Required role: '' @ join '' or '' rs\<rparr>"
    by (simp add: requireRole_def)
next
  assume "c_role c = Some r \<and> r \<noteq> [] \<and> hasAnyPermission r ps = Inr False"
  then show "requirePermission ps c =
        Respond \<lparr>status = 403,
                 message = ''Access denied. Required permission: '' @ join '' or '' ps\<rparr>"
    by (simp add: requirePermission_def)
next
  assume "c_role c = Some r \<and> r \<noteq> [] \<and> hasAllPermissions r ps = Inr False"
  then show "requireAllPermissions ps c =
        Respond \<lparr>status = 403,
                 message = ''Access denied. Required all permissions: '' @ join '' and '' ps\<rparr>"
    by (simp add: requireAllPermissions_def)
qed

theorem all_of_denial_message_counterexample:
  "hasAllPermissions USER [MANAGE_SETTINGS] = Inr False
   \<and> requireAllPermissions [MANAGE_SETTINGS] (empty_ctx\<lparr>c_role := Some USER\<rparr>) =
       Respond \<lparr>status = 403,
                message = ''Access denied. Required all permissions: MANAGE_SETTINGS''\<rparr>
   \<and> take 36 ''Access denied. Required all permissions: MANAGE_SETTINGS''
       \<noteq> ''Access denied. Required permission: ''"
proof -
  have a: "hasAllPermissions USER [MANAGE_SETTINGS] = Inr False"
    by (simp add: hasAllPermissions_def user_lacks_manage_settings)
  have m: "''Access denied. Required all permissions: '' @ join '' and '' [MANAGE_SETTINGS]
             = ''Access denied. Required all permissions: MANAGE_SETTINGS''"
    by (simp add: MANAGE_SETTINGS_def)
  have "requireAllPermissions [MANAGE_SETTINGS] (empty_ctx\<lparr>c_role := Some USER\<rparr>) =
       Respond \<lparr>status = 403,
                message = ''Access denied. Required all permissions: ''
                          @ join '' and '' [MANAGE_SETTINGS]\<rparr>"
    by (simp add: requireAllPermissions_def a role_nonempty)
  then have b: "requireAllPermissions [MANAGE_SETTINGS] (empty_ctx\<lparr>c_role := Some USER\<rparr>) =
       Respond \<lparr>status = 403,
                message = ''Access denied. Required all permissions: MANAGE_SETTINGS''\<rparr>"
    unfolding m .
  have c: "take 36 ''Access denied. Required all permissions: MANAGE_SETTINGS''
       \<noteq> ''Access denied. Required permission: ''"
    by simp
  from a b c show ?thesis by blast
qed

theorem denial_responses_witness:
  "getSession anonymous_request = None
   \<and> requireOrganizationContext sample_db anonymous_request empty_ctx =
       Respond \<lparr>status = 401, message = ''Unauthorized''\<rparr>
   \<and> requireOrganizationContext sample_db (sample_request ''u1'' None (Some [])) empty_ctx =
       Respond \<lparr>status = 400, message = ''Organization ID is required''\<rparr>
   \<and> requireOrganizationContext sample_db (sample_request ''u3'' (Some ''org1'') None) empty_ctx =
       Respond \<lparr>status = 403, message = ''User is not a member of this organization''\<rparr>
   \<and> requireRole [OWNER] (empty_ctx\<lparr>c_role := Some USER\<rparr>) =
       Respond \<lparr>status = 403, message = ''Access denied. Required role: OWNER''\<rparr>
   \<and> requirePermission [MANAGE_SETTINGS, MANAGE_BILLING] (empty_ctx\<lparr>c_role := Some USER\<rparr>) =
       Respond \<lparr>status = 403,
                message = ''Access denied. Required permission: MANAGE_SETTINGS or MANAGE_BILLING''\<rparr>
   \<and> requireAllPermissions [VIEW_SETTINGS, MANAGE_SETTINGS] (empty_ctx\<lparr>c_role := Some USER\<rparr>) =
       Respond \<lparr>status = 403,
                message = ''Access denied. Required all permissions: VIEW_SETTINGS and MANAGE_SETTINGS''\<rparr>"
proof -
  let ?c = "empty_ctx\<lparr>c_role := Some USER\<rparr>"
  have 1: "getSession anonymous_request = None" by (simp add: anonymous_request_def)
  have 2: "getSession (sample_request ''u1'' None (Some [])) =
             Some \<lparr>sd_user = \<lparr>user_id = ''u1'', user_name = None, user_email = []\<rparr>,
                   sd_session = \<lparr>activeOrganizationId = None\<rparr>\<rparr>
        \<and> \<not> truthy (activeOrganizationId (sd_session
               \<lparr>sd_user = \<lparr>user_id = ''u1'', user_name = None, user_email = []\<rparr>,
                sd_session = \<lparr>activeOrganizationId = None\<rparr>\<rparr>))
        \<and> \<not> truthy (query (sample_request ''u1'' None (Some [])) ''organizationId'')
        \<and> \<not> truthy (param (sample_request ''u1'' None (Some [])) ''organizationId'')"
    by (simp add: sample_request_def truthy_def)
  have 3: "getSession (sample_request ''u3'' (Some ''org1'') None) =
             Some \<lparr>sd_user = \<lparr>user_id = ''u3'', user_name = None, user_email = []\<rparr>,
                   sd_session = \<lparr>activeOrganizationId = Some ''org1''\<rparr>\<rparr>
        \<and> resolveOrganizationId
              \<lparr>sd_user = \<lparr>user_id = ''u3'', user_name = None, user_email = []\<rparr>,
               sd_session = \<lparr>activeOrganizationId = Some ''org1''\<rparr>\<rparr>
              (sample_request ''u3'' (Some ''org1'') None) = Some ''org1'' \<and> ''org1'' \<noteq> []
        \<and> getOrganizationMember sample_db (user_id (sd_user
              \<lparr>sd_user = \<lparr>user_id = ''u3'', user_name = None, user_email = []\<rparr>,
               sd_session = \<lparr>activeOrganizationId = Some ''org1''\<rparr>\<rparr>)) ''org1'' = None"
    by (simp add: sample_request_def resolveOrganizationId_def js_or_def truthy_def sample_member_u3)
  have 4: "c_role ?c = Some USER \<and> USER \<notin> set [OWNER]" by (simp add: role_distinct)
  have 5: "c_role ?c = Some USER \<and> USER \<noteq> []
        \<and> hasAnyPermission USER [MANAGE_SETTINGS, MANAGE_BILLING] = Inr False"
    by (simp add: role_nonempty hasAnyPermission_def hasPermission_declared table_entries
        MANAGE_SETTINGS_def MANAGE_BILLING_def VIEW_ORGANIZATION_def
        VIEW_WORKOUTS_def VIEW_SCHEDULE_def VIEW_SETTINGS_def)
  have 6: "c_role ?c = Some USER \<and> USER \<noteq> []
        \<and> hasAllPermissions USER [VIEW_SETTINGS, MANAGE_SETTINGS] = Inr False"
    by (simp add: role_nonempty hasAllPermissions_def hasPermission_declared table_entries
        MANAGE_SETTINGS_def VIEW_ORGANIZATION_def
        VIEW_WORKOUTS_def VIEW_SCHEDULE_def VIEW_SETTINGS_def)
  have j: "''Access denied. Required role: '' @ join '' or '' [OWNER]
             = ''Access denied. Required role: OWNER''"
    "''Access denied. Required permission: '' @ join '' or '' [MANAGE_SETTINGS, MANAGE_BILLING]
       = ''Access denied. Required permission: MANAGE_SETTINGS or MANAGE_BILLING''"
    "''Access denied. Required all permissions: '' @ join '' and '' [VIEW_SETTINGS, MANAGE_SETTINGS]
       = ''Access denied. Required all permissions: VIEW_SETTINGS and MANAGE_SETTINGS''"
    by (simp_all add: OWNER_def MANAGE_SETTINGS_def MANAGE_BILLING_def VIEW_SETTINGS_def)
  note d = denial_responses
  from 1 d[of anonymous_request sample_db empty_ctx]
  have a: "requireOrganizationContext sample_db anonymous_request empty_ctx =
       Respond \<lparr>status = 401, message = ''Unauthorized''\<rparr>" by blast
  from 2 d[of "sample_request ''u1'' None (Some [])" sample_db empty_ctx]
  have b: "requireOrganizationContext sample_db (sample_request ''u1'' None (Some [])) empty_ctx =
       Respond \<lparr>status = 400, message = ''Organization ID is required''\<rparr>" by blast
  from 3 d[of "sample_request ''u3'' (Some ''org1'') None" sample_db empty_ctx]
  have c: "requireOrganizationContext sample_db (sample_request ''u3'' (Some ''org1'') None) empty_ctx =
       Respond \<lparr>status = 403, message = ''User is not a member of this organization''\<rparr>" by blast
  from 4 d[where c = ?c and r = USER and rs = "[OWNER]"]
  have e: "requireRole [OWNER] ?c =
       Respond \<lparr>status = 403, message = ''Access denied. Required role: '' @ join '' or '' [OWNER]\<rparr>"
    by blast
  from 5 d[where c = ?c and r = USER and ps = "[MANAGE_SETTINGS, MANAGE_BILLING]"]
  have f: "requirePermission [MANAGE_SETTINGS, MANAGE_BILLING] ?c =
       Respond \<lparr>status = 403, message = ''Access denied. Required permission: ''
          @ join '' or '' [MANAGE_SETTINGS, MANAGE_BILLING]\<rparr>"
    by blast
  from 6 d[where c = ?c and r = USER and ps = "[VIEW_SETTINGS, MANAGE_SETTINGS]"]
  have g: "requireAllPermissions [VIEW_SETTINGS, MANAGE_SETTINGS] ?c =
       Respond \<lparr>status = 403, message = ''Access denied. Required all permissions: ''
          @ join '' and '' [VIEW_SETTINGS, MANAGE_SETTINGS]\<rparr>"
    by blast
  from 1 a b c e[unfolded j] f[unfolded j] g[unfolded j] show ?thesis by blast
qed

section \<open>The guard fails closed\<close>

text \<open>
  Claim C4. Whatever the handler and the context a request arrives with: when there is no
  session, no non-empty organization hint or no valid membership, every chain that starts
  with the context guard ends in a denial; and when, besides, the resolved role does not
  meet the requirement of the role guard, of the any-of permission guard or of the all-of
  permission guard that follows, the chain ends in a denial as well. A denied chain has
  not run the handler: the outcome of a chain is either the denial of a guard or the
  result of the handler.
\<close>

theorem guard_fails_closed:
  "(\<not> (\<exists>session oid m. getSession req = Some session
          \<and> resolveOrganizationId session req = Some oid \<and> oid \<noteq> []
          \<and> getOrganizationMember db (user_id (sd_user session)) oid = Some m)
      \<longrightarrow> (\<exists>r. \<forall>ms. dispatch (requireOrganizationContext db req # ms) h c = Denied r))
   \<and> (\<not> (\<exists>session oid m. getSession req = Some session
          \<and> resolveOrganizationId session req = Some oid \<and> oid \<noteq> []
          \<and> getOrganizationMember db (user_id (sd_user session)) oid = Some m
          \<and> m_role m \<in> set rs)
      \<longrightarrow> (\<exists>r. dispatch [requireOrganizationContext db req, requireRole rs] h c = Denied r))
   \<and> (\<not> (\<exists>session oid m. getSession req = Some session
          \<and> resolveOrganizationId session req = Some oid \<and> oid \<noteq> []
          \<and> getOrganizationMember db (user_id (sd_user session)) oid = Some m
          \<and> hasAnyPermission (m_role m) ps = Inr True)
      \<longrightarrow> (\<exists>r. dispatch [requireOrganizationContext db req, requirePermission ps] h c = Denied r))
   \<and> (\<not> (\<exists>session oid m. getSession req = Some session
          \<and> resolveOrganizationId session req = Some oid \<and> oid \<noteq> []
          \<and> getOrganizationMember db (user_id (sd_user session)) oid = Some m
          \<and> hasAllPermissions (m_role m) ps = Inr True)
      \<longrightarrow> (\<exists>r. dispatch [requireOrganizationContext db req, requireAllPermissions ps] h c
                  = Denied r))"
  by (intro conjI impI chain_base chain_role chain_any chain_all)

theorem guard_fails_closed_witness:
  "getSession anonymous_request = None
   \<and> (\<exists>r. \<forall>ms. dispatch (requireOrganizationContext sample_db anonymous_request # ms)
                   (\<lambda>c. ()) empty_ctx = Denied r)
   \<and> getOrganizationMember sample_db ''u2'' ''org1'' =
        Some \<lparr>m_userId = ''u2'', m_organizationId = ''org1'', m_role = USER\<rparr>
   \<and> (\<exists>r. dispatch [requireOrganizationContext sample_db (sample_request ''u2'' (Some ''org1'') None),
                      requireRole [OWNER]] (\<lambda>c. ()) empty_ctx = Denied r)
   \<and> (\<exists>r. dispatch [requireOrganizationContext sample_db (sample_request ''u2'' (Some ''org1'') None),
                      requirePermission [MANAGE_SETTINGS]] (\<lambda>c. ()) empty_ctx = Denied r)
   \<and> (\<exists>r. dispatch [requireOrganizationContext sample_db (sample_request ''u2'' (Some ''org1'') None),
                      requireAllPermissions [VIEW_SETTINGS, MANAGE_SETTINGS]] (\<lambda>c. ()) empty_ctx
              = Denied r)"
proof -
  let ?req = "sample_request ''u2'' (Some ''org1'') None"
  have 1: "getSession anonymous_request = None" by (simp add: anonymous_request_def)
  then have a: "\<not> (\<exists>session oid m. getSession anonymous_request = Some session
          \<and> resolveOrganizationId session anonymous_request = Some oid \<and> oid \<noteq> []
          \<and> getOrganizationMember sample_db (user_id (sd_user session)) oid = Some m)"
    by simp
  have s: "getSession ?req = Some session \<Longrightarrow>
             user_id (sd_user session) = ''u2'' \<and> resolveOrganizationId session ?req = Some ''org1''"
    for session
    by (auto simp: sample_request_def resolveOrganizationId_def js_or_def truthy_def)
  have b: "\<not> (\<exists>session oid m. getSession ?req = Some session
          \<and> resolveOrganizationId session ?req = Some oid \<and> oid \<noteq> []
          \<and> getOrganizationMember sample_db (user_id (sd_user session)) oid = Some m
          \<and> m_role m \<in> set [OWNER])"
    using s by (auto simp: sample_member_u2 role_distinct)
  have c: "\<not> (\<exists>session oid m. getSession ?req = Some session
          \<and> resolveOrganizationId session ?req = Some oid \<and> oid \<noteq> []
          \<and> getOrganizationMember sample_db (user_id (sd_user session)) oid = Some m
          \<and> hasAnyPermission (m_role m) [MANAGE_SETTINGS] = Inr True)"
    using s by (auto simp: sample_member_u2 hasAnyPermission_def user_lacks_manage_settings)
  from a guard_fails_closed[of anonymous_request sample_db "\<lambda>c. ()" empty_ctx]
  have x: "\<exists>r. \<forall>ms. dispatch (requireOrganizationContext sample_db anonymous_request # ms)
                   (\<lambda>c. ()) empty_ctx = Denied r"
    by blast
  from b guard_fails_closed[of ?req sample_db "\<lambda>c. ()" empty_ctx "[OWNER]"]
  have y: "\<exists>r. dispatch [requireOrganizationContext sample_db ?req, requireRole [OWNER]]
                  (\<lambda>c. ()) empty_ctx = Denied r"
    by blast
  from c guard_fails_closed[of ?req sample_db "\<lambda>c. ()" empty_ctx _ "[MANAGE_SETTINGS]"]
  have z: "\<exists>r. dispatch [requireOrganizationContext sample_db ?req, requirePermission [MANAGE_SETTINGS]]
                  (\<lambda>c. ()) empty_ctx = Denied r"
    by blast
  have d: "\<not> (\<exists>session oid m. getSession ?req = Some session
          \<and> resolveOrganizationId session ?req = Some oid \<and> oid \<noteq> []
          \<and> getOrganizationMember sample_db (user_id (sd_user session)) oid = Some m
          \<and> hasAllPermissions (m_role m) [VIEW_SETTINGS, MANAGE_SETTINGS] = Inr True)"
    using s
    by (auto simp: sample_member_u2 hasAllPermissions_def user_lacks_manage_settings
        split: sum.splits)
  from d guard_fails_closed[of ?req sample_db "\<lambda>c. ()" empty_ctx _ "[VIEW_SETTINGS, MANAGE_SETTINGS]"]
  have w: "\<exists>r. dispatch [requireOrganizationContext sample_db ?req,
                      requireAllPermissions [VIEW_SETTINGS, MANAGE_SETTINGS]] (\<lambda>c. ()) empty_ctx
              = Denied r"
    by blast
  from 1 x y z w sample_member_u2 show ?thesis by blast
qed

section \<open>Acting on and managing roles\<close>

text \<open>
  Claim C5. For declared roles \<open>actor\<close> and \<open>target\<close> and every action:
  \<^verbatim>\<open>canPerformAction\<close> is false when \<^verbatim>\<open>hasRoleHierarchy(actor, target)\<close> fails; OWNER may
  perform every action on every target; TRAINER may perform exactly view and edit, and
  only on USER; USER may perform nothing.
\<close>

theorem canPerformAction_table:
  assumes "isRole actor" and "isRole target"
  shows "(\<not> hasRoleHierarchy txt actor target \<longrightarrow> \<not> canPerformAction txt actor target action)
    \<and> (actor = OWNER \<longrightarrow> canPerformAction txt actor target action)
    \<and> (actor = TRAINER \<longrightarrow>
         (canPerformAction txt actor target action \<longleftrightarrow>
            target = USER \<and> (action = ''view'' \<or> action = ''edit'')))
    \<and> (actor = USER \<longrightarrow> \<not> canPerformAction txt actor target action)"
  using assms
  by (auto simp: isRole_cases canPerformAction_def hasRoleHierarchy_def hierarchy_get role_distinct)

theorem canPerformAction_table_witness:
  "isRole TRAINER \<and> isRole USER \<and> isRole OWNER
   \<and> hasRoleHierarchy (\<lambda>k. k) TRAINER USER
   \<and> canPerformAction (\<lambda>k. k) TRAINER USER ''edit''
   \<and> \<not> canPerformAction (\<lambda>k. k) TRAINER USER ''delete''
   \<and> \<not> hasRoleHierarchy (\<lambda>k. k) TRAINER OWNER
   \<and> \<not> canPerformAction (\<lambda>k. k) TRAINER OWNER ''view''
   \<and> canPerformAction (\<lambda>k. k) OWNER OWNER ''manage''
   \<and> \<not> canPerformAction (\<lambda>k. k) USER USER ''view''"
proof -
  have r: "isRole TRAINER" "isRole USER" "isRole OWNER" by (simp_all add: isRole_cases)
  have h: "hasRoleHierarchy (\<lambda>k. k) TRAINER USER" "\<not> hasRoleHierarchy (\<lambda>k. k) TRAINER OWNER"
    by (simp_all add: hasRoleHierarchy_def hierarchy_get)
  from r h canPerformAction_table[OF r(1) r(2), of "\<lambda>k. k" "''edit''"]
    canPerformAction_table[OF r(1) r(2), of "\<lambda>k. k" "''delete''"]
    canPerformAction_table[OF r(1) r(3), of "\<lambda>k. k" "''view''"]
    canPerformAction_table[OF r(3) r(3), of "\<lambda>k. k" "''manage''"]
    canPerformAction_table[OF r(2) r(2), of "\<lambda>k. k" "''view''"]
  show ?thesis by (simp add: role_distinct)
qed

text \<open>
  Claim C6. \<^verbatim>\<open>canManageRole(OWNER, t)\<close> is true for every target \<open>t\<close>, OWNER included;
  \<^verbatim>\<open>canManageRole(TRAINER, t)\<close> is true exactly when \<open>t\<close> is USER, so false on TRAINER;
  \<^verbatim>\<open>canManageRole(USER, t)\<close> is false for every \<open>t\<close>.
\<close>

theorem canManageRole_table:
  "canManageRole OWNER t \<and> (canManageRole TRAINER t \<longleftrightarrow> t = USER) \<and> \<not> canManageRole USER t"
  by (simp add: canManageRole_def role_distinct)

section \<open>Unrecognized roles\<close>

text \<open>
  Claim C7, as amended. Let \<open>r\<close> be a role string that is not a declared role and not
  the name of a member of \<^verbatim>\<open>Object.prototype\<close>. Then no function of the evaluator raises
  on \<open>r\<close>; \<^verbatim>\<open>getRolePermissions\<close> gives the empty list; \<^verbatim>\<open>hasPermission\<close> and
  \<^verbatim>\<open>hasAnyPermission\<close> return false; \<^verbatim>\<open>hasAllPermissions\<close> returns false on every
  non-empty list; \<^verbatim>\<open>hasRoleHierarchy\<close> and \<^verbatim>\<open>canPerformAction\<close> return false with \<open>r\<close>
  on either side; \<^verbatim>\<open>canManageRole\<close> returns false with \<open>r\<close> as the manager.
\<close>

theorem unrecognized_role_fails_closed:
  assumes "\<not> isRole r" and "r \<notin> set Object_prototype_keys"
  shows "getRolePermissions r = Val []
    \<and> hasPermission r p = Inr False
    \<and> hasAnyPermission r ps = Inr False
    \<and> (ps \<noteq> [] \<longrightarrow> hasAllPermissions r ps = Inr False)
    \<and> \<not> hasRoleHierarchy txt r x
    \<and> \<not> hasRoleHierarchy txt x r
    \<and> \<not> canManageRole r x
    \<and> \<not> canPerformAction txt r x a
    \<and> \<not> canPerformAction txt x r a"
proof -
  have t: "js_get ROLE_PERMISSIONS r = Undefined" and h: "js_get hierarchy r = Undefined"
    using assms by (simp_all add: absent_get)
  have hp: "\<And>q. hasPermission r q = Inr False" by (simp add: hasPermission_def t)
  have 1: "getRolePermissions r = Val []" by (simp add: getRolePermissions_def t)
  have 3: "hasAnyPermission r ps = Inr False"
    unfolding hasAnyPermission_def by (rule some_js_all_false) (rule hp)
  have 4: "ps \<noteq> [] \<longrightarrow> hasAllPermissions r ps = Inr False"
    by (cases ps) (simp_all add: hasAllPermissions_def hp)
  have 5: "\<not> hasRoleHierarchy txt r x" by (simp add: hasRoleHierarchy_def h)
  have 6: "\<not> hasRoleHierarchy txt x r"
    by (cases "js_get hierarchy x") (simp_all add: hasRoleHierarchy_def h)
  have 7: "\<not> canManageRole r x"
    using assms(1) by (simp add: canManageRole_def isRole_cases)
  have 8: "\<not> canPerformAction txt r x a" by (simp add: canPerformAction_def 5)
  have 9: "\<not> canPerformAction txt x r a" by (simp add: canPerformAction_def 6)
  from 1 hp 3 4 5 6 7 8 9 show ?thesis by simp
qed

theorem unrecognized_role_counterexample:
  "hasAllPermissions ''GUEST'' [] = Inr True
   \<and> hasPermission ''constructor'' VIEW_MEMBERS = Inl TypeError"
  by (simp add: hasAllPermissions_def hasPermission_def js_get_def ROLE_PERMISSIONS_def
      OWNER_def TRAINER_def USER_def Object_prototype_keys_def)

theorem unrecognized_role_witness:
  "\<not> isRole ''GUEST'' \<and> ''GUEST'' \<notin> set Object_prototype_keys
   \<and> getRolePermissions ''GUEST'' = Val []
   \<and> hasPermission ''GUEST'' VIEW_MEMBERS = Inr False
   \<and> hasAnyPermission ''GUEST'' [VIEW_MEMBERS, VIEW_USERS] = Inr False
   \<and> hasAllPermissions ''GUEST'' [VIEW_MEMBERS, VIEW_USERS] = Inr False
   \<and> \<not> hasRoleHierarchy (\<lambda>k. k) ''GUEST'' USER
   \<and> \<not> canManageRole ''GUEST'' USER
   \<and> \<not> canPerformAction (\<lambda>k. k) ''GUEST'' USER ''view''"
proof -
  have a: "\<not> isRole ''GUEST''" by (simp add: isRole_cases OWNER_def TRAINER_def USER_def)
  have b: "''GUEST'' \<notin> set Object_prototype_keys" by (simp add: Object_prototype_keys_def)
  show ?thesis
    using a b unrecognized_role_fails_closed [OF a b, of VIEW_MEMBERS "[VIEW_MEMBERS, VIEW_USERS]"
        "\<lambda>k. k" USER "''view''"]
    by simp
qed

section \<open>The evaluator on the empty list\<close>

text \<open>
  Claim C8. For every role \<open>r\<close> (declared or not), \<^verbatim>\<open>hasAnyPermission(r, [])\<close> returns
  false and \<^verbatim>\<open>hasAllPermissions(r, [])\<close> returns true; neither raises.
\<close>

theorem empty_list_any_false_all_true:
  "hasAnyPermission r [] = Inr False \<and> hasAllPermissions r [] = Inr True"
  by (simp add: hasAnyPermission_def hasAllPermissions_def)

section \<open>The organization hint\<close>

text \<open>
  Claim C9. On a request with a session, the context guard behaves as the specification's
  resolver: it takes the first non-empty value among the session's active organization,
  the query parameter \<^verbatim>\<open>organizationId\<close> and the path parameter \<^verbatim>\<open>organizationId\<close>, in
  this order; with none it answers 400 "Organization ID is required"; with one it looks
  the membership up in that organization and no other, and on success stores that very
  identifier in the context.
\<close>

theorem organization_hint_precedence:
  assumes "getSession req = Some session"
  shows "requireOrganizationContext db req c =
     (case spec_first_non_empty_hint
             [activeOrganizationId (sd_session session),
              query req ''organizationId'',
              param req ''organizationId''] of
        None \<Rightarrow> Respond \<lparr>status = 400, message = ''Organization ID is required''\<rparr>
      | Some oid \<Rightarrow>
         (case getOrganizationMember db (user_id (sd_user session)) oid of
            None \<Rightarrow> Respond \<lparr>status = 403,
                              message = ''User is not a member of this organization''\<rparr>
          | Some m \<Rightarrow> Next (c\<lparr>c_user := Some (sd_user session),
                               c_session := Some (sd_session session),
                               c_organizationId := Some oid,
                               c_role := Some (m_role m),
                               c_member := Some m\<rparr>)))"
  using assms
  by (auto simp: requireOrganizationContext_def resolveOrganizationId_def resolve_first_non_empty
      truthy_def split: option.splits)

theorem organization_hint_precedence_witness:
  "getSession (sample_request ''u2'' None (Some ''org1'')) =
      Some \<lparr>sd_user = \<lparr>user_id = ''u2'', user_name = None, user_email = []\<rparr>,
            sd_session = \<lparr>activeOrganizationId = None\<rparr>\<rparr>
   \<and> requireOrganizationContext sample_db (sample_request ''u2'' None (Some ''org1'')) empty_ctx =
       Next (empty_ctx\<lparr>c_user := Some \<lparr>user_id = ''u2'', user_name = None, user_email = []\<rparr>,
                       c_session := Some \<lparr>activeOrganizationId = None\<rparr>,
                       c_organizationId := Some ''org1'',
                       c_role := Some USER,
                       c_member := Some \<lparr>m_userId = ''u2'', m_organizationId = ''org1'',
                                          m_role = USER\<rparr>\<rparr>)
   \<and> requireOrganizationContext sample_db (sample_request ''u2'' (Some []) None) empty_ctx =
       Respond \<lparr>status = 400, message = ''Organization ID is required''\<rparr>"
proof -
  have s1: "getSession (sample_request ''u2'' None (Some ''org1'')) =
      Some \<lparr>sd_user = \<lparr>user_id = ''u2'', user_name = None, user_email = []\<rparr>,
            sd_session = \<lparr>activeOrganizationId = None\<rparr>\<rparr>"
    by (simp add: sample_request_def)
  have s2: "getSession (sample_request ''u2'' (Some []) None) =
      Some \<lparr>sd_user = \<lparr>user_id = ''u2'', user_name = None, user_email = []\<rparr>,
            sd_session = \<lparr>activeOrganizationId = Some []\<rparr>\<rparr>"
    by (simp add: sample_request_def)
  have q: "query (sample_request ''u2'' None (Some ''org1'')) ''organizationId'' = Some ''org1''"
    "param (sample_request ''u2'' None (Some ''org1'')) ''organizationId'' = None"
    "query (sample_request ''u2'' (Some []) None) ''organizationId'' = None"
    "param (sample_request ''u2'' (Some []) None) ''organizationId'' = None"
    by (simp_all add: sample_request_def)
  from organization_hint_precedence[OF s1, of sample_db empty_ctx]
    organization_hint_precedence[OF s2, of sample_db empty_ctx]
  show ?thesis
    by (simp add: s1 q spec_first_non_empty_hint_def truthy_def sample_member_u2)
qed

section \<open>The table is monotone in the rank\<close>

text \<open>
  Claim C10. Every permission of USER is a permission of TRAINER, and every permission of
  TRAINER is a permission of OWNER; so whenever \<^verbatim>\<open>hasRoleHierarchy(r1, r2)\<close> holds and
  \<open>r2\<close> has a permission, \<open>r1\<close> has it too.
\<close>

theorem table_monotone_in_rank:
  "(hasPermission USER p = Inr True \<longrightarrow> hasPermission TRAINER p = Inr True)
   \<and> (hasPermission TRAINER p = Inr True \<longrightarrow> hasPermission OWNER p = Inr True)
   \<and> (hasRoleHierarchy txt r1 r2 \<and> hasPermission r2 p = Inr True \<longrightarrow> hasPermission r1 p = Inr True)"
proof (intro conjI impI)
  assume "hasPermission USER p = Inr True"
  then show "hasPermission TRAINER p = Inr True" by (rule user_le_trainer)
next
  assume "hasPermission TRAINER p = Inr True"
  then show "hasPermission OWNER p = Inr True" by (rule trainer_le_owner)
next
  assume a: "hasRoleHierarchy txt r1 r2 \<and> hasPermission r2 p = Inr True"
  then have h: "hasRoleHierarchy txt r1 r2" and q: "hasPermission r2 p = Inr True" by simp_all
  from q have r2: "isRole r2" by (rule hasPermission_True_declared)
  from h r2 have r1: "isRole r1" by (rule hasRoleHierarchy_declared_right)
  from r1 r2 h q show "hasPermission r1 p = Inr True"
    by (auto simp: isRole_cases hasRoleHierarchy_def hierarchy_get
             intro: user_le_trainer trainer_le_owner)
qed

theorem table_monotone_witness:
  "hasPermission USER VIEW_SCHEDULE = Inr True
   \<and> hasPermission TRAINER VIEW_SCHEDULE = Inr True
   \<and> hasPermission OWNER VIEW_SCHEDULE = Inr True
   \<and> hasRoleHierarchy (\<lambda>k. k) OWNER USER"
proof -
  have u: "hasPermission USER VIEW_SCHEDULE = Inr True"
    by (simp add: hasPermission_declared table_entries)
  have h: "hasRoleHierarchy (\<lambda>k. k) OWNER USER"
    by (simp add: hasRoleHierarchy_def hierarchy_get)
  from u h table_monotone_in_rank[of VIEW_SCHEDULE "\<lambda>k. k" OWNER USER]
  show ?thesis by simp
qed

end
